theory Spec2Isabelle
  imports Complex_Main
begin

section \<open>Data model\<close>

text \<open>
  The relational store of \<^verbatim>\<open>001_initial_schema.sql\<close>: one list of rows per table, in
  insertion order (the order \<^verbatim>\<open>created_at\<close> gives). Primary keys (\<^verbatim>\<open>gen_random_uuid()\<close>)
  are natural numbers; a new row gets a number no row of its table has. The
  \<^verbatim>\<open>created_at\<close> and \<^verbatim>\<open>updated_at\<close> columns are not part of the model. Of the limits of
  the column types the model keeps the integer ranges (\<^verbatim>\<open>item_count INTEGER\<close>, the
  \<^verbatim>\<open>bigint\<close> position of a saved address): a value out of range makes the statement fail
  with SQLSTATE 22003. Text encodings, the range of timestamps and failures of the
  connection are not modelled.
\<close>

datatype order_status =
  Pending | PickedUp | InLaundry | Ready | OutForDelivery | Completed | Cancelled

datatype service_type = Standard | Express | Premium

datatype payment_status =
  PaymentPending | PaymentCompleted | PaymentFailed | PaymentRefunded

text \<open>A JavaScript number, as far as \<^verbatim>\<open>Number.isFinite\<close> tells numbers apart.\<close>

datatype jsnum = Finite rat | PosInfinity | NegInfinity | NaN

text \<open>A JavaScript value read from a request body; \<open>Undefined\<close> is an absent key.\<close>

datatype jsval =
  Undefined | Null | Boolean bool | Number jsnum | String string | Object | Array

record address =
  street :: string
  city :: string
  state :: string
  zipCode :: string
  latitude :: "rat option"
  longitude :: "rat option"

record location =
  loc_latitude :: jsval
  loc_longitude :: jsval
  loc_timestamp :: string

text \<open>A \<^verbatim>\<open>jsonb\<close> value, and a \<^verbatim>\<open>jsonb\<close> column that may hold SQL NULL (\<open>None\<close>).\<close>

datatype jsonb =
  JNull | JBool bool | JNum rat | JStr string
  | JArr "jsonb list" | JObj "(string \<times> jsonb) list"

record user_row =
  u_id :: nat
  u_clerk_id :: string
  u_name :: "string option"
  u_phone :: "string option"
  u_default_address :: "address option"
  u_saved_addresses :: "jsonb option"

record order_row =
  o_id :: nat
  o_user_id :: nat
  o_pickup_address :: address
  o_delivery_address :: address
  o_scheduled_time :: nat
  o_status :: order_status
  o_service_type :: service_type
  o_item_count :: int
  o_price :: rat
  o_driver_id :: "nat option"
  o_driver_location :: "location option"
  o_notes :: "string option"

record history_row =
  h_order_id :: nat
  h_old_status :: "order_status option"
  h_new_status :: order_status
  h_changed_by :: "nat option"
  h_notes :: "string option"

record payment_row =
  p_id :: nat
  p_order_id :: nat
  p_user_id :: nat
  p_stripe_payment_id :: "string option"
  p_stripe_payment_intent_id :: "string option"
  p_amount :: rat
  p_status :: payment_status
  p_payment_method_id :: "string option"
  p_error_message :: "string option"

record db =
  users :: "user_row list"
  orders :: "order_row list"
  order_status_history :: "history_row list"
  payments :: "payment_row list"

text \<open>
  What a handler answers when it does not succeed: a Joi validation error thrown to the
  error middleware (which answers 400), an explicit \<^verbatim>\<open>res.status(n).json({error})\<close>, or
  another exception handed to \<^verbatim>\<open>next\<close>.
\<close>

datatype error =
  ValidationError string
  | HttpError nat string
  | Thrown string

definition fresh_id :: "nat list \<Rightarrow> nat" where
  "fresh_id ids = Suc (foldr max ids 0)"

text \<open>The key constraints of the schema that the handlers rely on.\<close>

definition db_ok :: "db \<Rightarrow> bool" where
  "db_ok s \<longleftrightarrow>
     distinct (map o_id (orders s)) \<and>
     list_all (\<lambda>h. h_order_id h \<in> set (map o_id (orders s))) (order_status_history s)"

definition user_by_clerk_id :: "db \<Rightarrow> string \<Rightarrow> user_row list" where
  "user_by_clerk_id s c = filter (\<lambda>u. u_clerk_id u = c) (users s)"

text \<open>\<^verbatim>\<open>result.rows[0]\<close>: \<^verbatim>\<open>undefined\<close> (\<open>None\<close>) when the result has no row.\<close>

definition first_row :: "'a list \<Rightarrow> 'a option" where
  "first_row rows = (case rows of [] \<Rightarrow> None | r # _ \<Rightarrow> Some r)"

definition history_of :: "db \<Rightarrow> nat \<Rightarrow> history_row list" where
  "history_of s i = filter (\<lambda>h. h_order_id h = i) (order_status_history s)"

section \<open>Pricing table (pricingController.js)\<close>

record pricing_tier =
  tier_name :: string
  basePrice :: rat
  tier_description :: string
  features :: "string list"

definition PRICING_TIERS :: "service_type \<Rightarrow> pricing_tier" where
  "PRICING_TIERS t = (case t of
     Standard \<Rightarrow> \<lparr>tier_name = ''Standard'', basePrice = 25,
        tier_description = ''3-5 business days'',
        features = [''Wash and fold'', ''Basic detergent'', ''Standard packaging'']\<rparr>
   | Express \<Rightarrow> \<lparr>tier_name = ''Express'', basePrice = 40,
        tier_description = ''24-48 hours'',
        features = [''Wash and fold'', ''Premium detergent'', ''Next-day delivery'',
          ''Eco-friendly packaging'']\<rparr>
   | Premium \<Rightarrow> \<lparr>tier_name = ''Premium'', basePrice = 60,
        tier_description = ''Same day delivery'',
        features = [''Wash and fold'', ''Luxury detergent'', ''Same-day delivery'',
          ''Hand washing available'', ''Premium packaging'',
          ''Stain treatment included'']\<rparr>)"

section \<open>Order lifecycle (orderController.js)\<close>

subsection \<open>Validation schemas\<close>

record address_body =
  street_in :: "string option"
  city_in :: "string option"
  state_in :: "string option"
  zipCode_in :: "string option"
  latitude_in :: "rat option"
  longitude_in :: "rat option"

datatype date_input = IsoDate nat | NotADate string

record create_order_body =
  pickupAddress_in :: "address_body option"
  deliveryAddress_in :: "address_body option"
  scheduledTime_in :: "date_input option"
  serviceType_in :: "string option"
  itemCount_in :: "rat option"
  notes_in :: "string option"

record create_order_value =
  pickupAddress :: address
  deliveryAddress :: address
  scheduledTime :: nat
  serviceType :: service_type
  itemCount :: int
  notes_val :: "string option"

text \<open>\<^verbatim>\<open>Joi.string().required()\<close>: present and not the empty string.\<close>

definition required_string :: "string \<Rightarrow> string option \<Rightarrow> error + string" where
  "required_string key v = (case v of
     None \<Rightarrow> Inl (ValidationError key)
   | Some x \<Rightarrow> if x = [] then Inl (ValidationError key) else Inr x)"

text \<open>
  \<^verbatim>\<open>Joi.number()\<close>, an optional key: Joi refuses a number beyond
  \<^verbatim>\<open>Number.MAX_SAFE_INTEGER\<close> in either direction.
\<close>

definition joi_number :: "string \<Rightarrow> rat option \<Rightarrow> error + rat option" where
  "joi_number key v = (case v of
     None \<Rightarrow> Inr None
   | Some r \<Rightarrow>
       if r > 9007199254740991 \<or> r < - 9007199254740991
       then Inl (ValidationError key)
       else Inr (Some r))"

definition address_schema :: "string \<Rightarrow> address_body option \<Rightarrow> error + address" where
  "address_schema key b = (case b of
     None \<Rightarrow> Inl (ValidationError key)
   | Some a \<Rightarrow>
      (case required_string ''street'' (street_in a) of Inl e \<Rightarrow> Inl e | Inr st \<Rightarrow>
      (case required_string ''city'' (city_in a) of Inl e \<Rightarrow> Inl e | Inr ci \<Rightarrow>
      (case required_string ''state'' (state_in a) of Inl e \<Rightarrow> Inl e | Inr sa \<Rightarrow>
      (case required_string ''zipCode'' (zipCode_in a) of Inl e \<Rightarrow> Inl e | Inr z \<Rightarrow>
      (case joi_number ''latitude'' (latitude_in a) of Inl e \<Rightarrow> Inl e | Inr la \<Rightarrow>
      (case joi_number ''longitude'' (longitude_in a) of Inl e \<Rightarrow> Inl e | Inr lo \<Rightarrow>
         Inr \<lparr>street = st, city = ci, state = sa, zipCode = z,
              latitude = la, longitude = lo\<rparr>)))))))"

definition service_type_of_string :: "string \<Rightarrow> service_type option" where
  "service_type_of_string x =
     (if x = ''standard'' then Some Standard
      else if x = ''express'' then Some Express
      else if x = ''premium'' then Some Premium
      else None)"

definition order_status_of_string :: "string \<Rightarrow> order_status option" where
  "order_status_of_string x =
     (if x = ''pending'' then Some Pending
      else if x = ''picked_up'' then Some PickedUp
      else if x = ''in_laundry'' then Some InLaundry
      else if x = ''ready'' then Some Ready
      else if x = ''out_for_delivery'' then Some OutForDelivery
      else if x = ''completed'' then Some Completed
      else if x = ''cancelled'' then Some Cancelled
      else None)"

text \<open>\<^verbatim>\<open>Joi.string().allow('').max(500)\<close>, an optional key.\<close>

definition notes_schema :: "string option \<Rightarrow> error + string option" where
  "notes_schema v = (case v of
     None \<Rightarrow> Inr None
   | Some x \<Rightarrow> if length x \<le> 500 then Inr (Some x) else Inl (ValidationError ''notes''))"

text \<open>
  \<^verbatim>\<open>Joi.number().integer().min(0).default(0)\<close>; Joi also refuses a number beyond
  \<^verbatim>\<open>Number.MAX_SAFE_INTEGER\<close>.
\<close>

definition itemCount_schema :: "rat option \<Rightarrow> error + int" where
  "itemCount_schema v = (case v of
     None \<Rightarrow> Inr 0
   | Some r \<Rightarrow>
       if of_int \<lfloor>r\<rfloor> \<noteq> r \<or> r < 0 \<or> r > 9007199254740991
       then Inl (ValidationError ''itemCount'')
       else Inr \<lfloor>r\<rfloor>)"

definition createOrderSchema :: "create_order_body \<Rightarrow> error + create_order_value" where
  "createOrderSchema b =
     (case address_schema ''pickupAddress'' (pickupAddress_in b) of Inl e \<Rightarrow> Inl e | Inr pa \<Rightarrow>
     (case address_schema ''deliveryAddress'' (deliveryAddress_in b) of Inl e \<Rightarrow> Inl e | Inr da \<Rightarrow>
     (case scheduledTime_in b of
        None \<Rightarrow> Inl (ValidationError ''scheduledTime'')
      | Some (NotADate _) \<Rightarrow> Inl (ValidationError ''scheduledTime'')
      | Some (IsoDate t) \<Rightarrow>
     (case serviceType_in b of
        None \<Rightarrow> Inl (ValidationError ''serviceType'')
      | Some x \<Rightarrow>
     (case service_type_of_string x of
        None \<Rightarrow> Inl (ValidationError ''serviceType'')
      | Some ty \<Rightarrow>
     (case itemCount_schema (itemCount_in b) of Inl e \<Rightarrow> Inl e | Inr n \<Rightarrow>
     (case notes_schema (notes_in b) of Inl e \<Rightarrow> Inl e | Inr nt \<Rightarrow>
        Inr \<lparr>pickupAddress = pa, deliveryAddress = da, scheduledTime = t,
             serviceType = ty, itemCount = n, notes_val = nt\<rparr>)))))))"

record update_status_body =
  status_in :: "string option"
  status_notes_in :: "string option"

definition updateStatusSchema ::
  "update_status_body \<Rightarrow> error + order_status \<times> string option" where
  "updateStatusSchema b =
     (case status_in b of
        None \<Rightarrow> Inl (ValidationError ''status'')
      | Some x \<Rightarrow>
     (case order_status_of_string x of
        None \<Rightarrow> Inl (ValidationError ''status'')
      | Some st \<Rightarrow>
     (case notes_schema (status_notes_in b) of Inl e \<Rightarrow> Inl e | Inr nt \<Rightarrow>
        Inr (st, nt))))"

subsection \<open>createOrder\<close>

definition pricingMap :: "service_type \<Rightarrow> rat" where
  "pricingMap t = (case t of Standard \<Rightarrow> 25 | Express \<Rightarrow> 40 | Premium \<Rightarrow> 60)"

text \<open>
  The \<^verbatim>\<open>INSERT INTO orders\<close> leaves \<^verbatim>\<open>status\<close>, \<^verbatim>\<open>driver_id\<close> and
  \<^verbatim>\<open>driver_location\<close> to their column defaults (\<^verbatim>\<open>'pending'\<close>, NULL, NULL). The column
  \<^verbatim>\<open>item_count\<close> is a 32-bit \<^verbatim>\<open>INTEGER\<close>: for a larger item count the insert raises
  22003, nothing is stored and the error goes to \<^verbatim>\<open>next\<close>.
\<close>

definition createOrder ::
  "string \<Rightarrow> create_order_body \<Rightarrow> db \<Rightarrow> (error + order_row) \<times> db" where
  "createOrder clerkId body s =
     (case createOrderSchema body of
        Inl e \<Rightarrow> (Inl e, s)
      | Inr v \<Rightarrow>
     (case user_by_clerk_id s clerkId of
        [] \<Rightarrow> (Inl (HttpError 404
                 ''User profile not found. Please complete your profile first.''), s)
      | u # _ \<Rightarrow>
          let userId = u_id u;
              price = pricingMap (serviceType v)
          in if itemCount v > 2147483647
             then (Inl (Thrown ''22003''), s)
             else
               let row = \<lparr>o_id = fresh_id (map o_id (orders s)),
                          o_user_id = userId,
                          o_pickup_address = pickupAddress v,
                          o_delivery_address = deliveryAddress v,
                          o_scheduled_time = scheduledTime v,
                          o_status = Pending,
                          o_service_type = serviceType v,
                          o_item_count = itemCount v,
                          o_price = price,
                          o_driver_id = None,
                          o_driver_location = None,
                          o_notes = notes_val v\<rparr>;
                   s1 = s\<lparr>orders := orders s @ [row]\<rparr>;
                   s2 = s1\<lparr>order_status_history := order_status_history s1 @
                          [\<lparr>h_order_id = o_id row, h_old_status = None,
                            h_new_status = Pending, h_changed_by = Some userId,
                            h_notes = None\<rparr>]\<rparr>
               in (Inr row, s2)))"

subsection \<open>updateOrderStatus\<close>

text \<open>\<^verbatim>\<open>UPDATE orders SET status = $1 WHERE id = $2\<close>.\<close>

definition set_status :: "nat \<Rightarrow> order_status \<Rightarrow> order_row list \<Rightarrow> order_row list" where
  "set_status i st rows = map (\<lambda>r. if o_id r = i then r\<lparr>o_status := st\<rparr> else r) rows"

definition updateOrderStatus ::
  "nat \<Rightarrow> update_status_body \<Rightarrow> db \<Rightarrow> (error + order_row option) \<times> db" where
  "updateOrderStatus i body s =
     (case updateStatusSchema body of
        Inl e \<Rightarrow> (Inl e, s)
      | Inr (st, nt) \<Rightarrow>
     (case filter (\<lambda>r. o_id r = i) (orders s) of
        [] \<Rightarrow> (Inl (HttpError 404 ''Order not found''), s)
      | cur # _ \<Rightarrow>
          let oldStatus = o_status cur;
              s1 = s\<lparr>orders := set_status i st (orders s)\<rparr>;
              s2 = s1\<lparr>order_status_history := order_status_history s1 @
                     [\<lparr>h_order_id = i, h_old_status = Some oldStatus,
                       h_new_status = st, h_changed_by = None, h_notes = nt\<rparr>]\<rparr>
          in (Inr (first_row (filter (\<lambda>r. o_id r = i) (orders s1))), s2)))"

subsection \<open>updateDriverLocation\<close>

fun Number_isFinite :: "jsval \<Rightarrow> bool" where
  "Number_isFinite (Number (Finite r)) = True"
| "Number_isFinite v = False"

record location_body =
  body_latitude :: jsval
  body_longitude :: jsval

text \<open>\<^verbatim>\<open>UPDATE orders SET driver_location = $1 WHERE id = $2\<close>.\<close>

definition set_driver_location :: "nat \<Rightarrow> location \<Rightarrow> order_row list \<Rightarrow> order_row list" where
  "set_driver_location i loc rows =
     map (\<lambda>r. if o_id r = i then r\<lparr>o_driver_location := Some loc\<rparr> else r) rows"

text \<open>\<open>now\<close> is what \<^verbatim>\<open>new Date().toISOString()\<close> returns when the request is served.\<close>

definition updateDriverLocation ::
  "string \<Rightarrow> nat \<Rightarrow> location_body \<Rightarrow> db \<Rightarrow> (error + order_row) \<times> db" where
  "updateDriverLocation now i body s =
     (if \<not> Number_isFinite (body_latitude body) \<or> \<not> Number_isFinite (body_longitude body)
      then (Inl (HttpError 400 ''Valid latitude and longitude coordinates required''), s)
      else
        let loc = \<lparr>loc_latitude = body_latitude body,
                   loc_longitude = body_longitude body,
                   loc_timestamp = now\<rparr>;
            s1 = s\<lparr>orders := set_driver_location i loc (orders s)\<rparr>
        in (case filter (\<lambda>r. o_id r = i) (orders s1) of
              [] \<Rightarrow> (Inl (HttpError 404 ''Order not found''), s1)
            | r # _ \<Rightarrow> (Inr r, s1)))"

subsection \<open>cancelOrder\<close>

definition cancelOrder ::
  "string \<Rightarrow> nat \<Rightarrow> db \<Rightarrow> (error + order_row option) \<times> db" where
  "cancelOrder clerkId i s =
     (case user_by_clerk_id s clerkId of
        [] \<Rightarrow> (Inl (HttpError 404 ''User not found''), s)
      | u # _ \<Rightarrow>
          let userId = u_id u in
          (case filter (\<lambda>r. o_id r = i \<and> o_user_id r = userId) (orders s) of
             [] \<Rightarrow> (Inl (HttpError 404 ''Order not found''), s)
           | order # _ \<Rightarrow>
               if o_status order \<in> set [Completed, Cancelled]
               then (Inl (HttpError 400 ''Order cannot be cancelled''), s)
               else
                 let s1 = s\<lparr>orders := set_status i Cancelled (orders s)\<rparr>;
                     s2 = s1\<lparr>order_status_history := order_status_history s1 @
                            [\<lparr>h_order_id = i, h_old_status = Some (o_status order),
                              h_new_status = Cancelled, h_changed_by = Some userId,
                              h_notes = Some ''Cancelled by customer''\<rparr>]\<rparr>
                 in (Inr (first_row (filter (\<lambda>r. o_id r = i) (orders s1))), s2)))"

section \<open>Payment reconciliation (paymentController.js)\<close>

subsection \<open>The identity provider and the payment processor\<close>

text \<open>
  Clerk and Stripe are outside the repository. What they answer is a parameter of the
  model (\<open>Inl\<close> is the message of the exception the SDK call throws), and every call a
  handler makes is recorded, in order, in the list it returns beside the store.
\<close>

record clerk_user =
  publicMetadata :: "(string \<times> string) list option"

record payment_intent_params =
  pi_amount :: int
  pi_currency :: string
  pi_customer :: string
  pi_payment_method :: string
  pi_confirm :: bool
  pi_metadata_orderId :: nat
  pi_metadata_userId :: nat
  pi_metadata_clerkId :: string

record payment_intent =
  intent_id :: string
  intent_status :: string
  intent_charge_ids :: "string list"
  intent_client_secret :: "string option"

record stripe_event =
  event_type :: string
  event_object_id :: string
  event_last_payment_error_message :: "string option"

datatype external_call =
  GetUser string
  | CustomersCreate "string option" string
  | UpdateUserMetadata string "(string \<times> string) list"
  | PaymentIntentsCreate payment_intent_params

record external =
  clerk_getUser :: "string \<Rightarrow> string + clerk_user"
  stripe_customers_create :: "string option \<Rightarrow> string \<Rightarrow> string + string"
  clerk_updateUserMetadata :: "string \<Rightarrow> (string \<times> string) list \<Rightarrow> string + unit"
  stripe_paymentIntents_create :: "payment_intent_params \<Rightarrow> string + payment_intent"
  stripe_constructEvent :: "string \<Rightarrow> string option \<Rightarrow> string option \<Rightarrow> string + stripe_event"

subsection \<open>processPayment\<close>

text \<open>A request value that should be a UUID: one that is (the row number), or another string.\<close>

datatype id_input = Uuid nat | NotUuid string

record payment_request =
  req_clerkId :: string
  req_email :: "string option"
  body_orderId :: "id_input option"
  body_paymentMethodId :: "string option"

definition paymentSchema :: "payment_request \<Rightarrow> error + nat \<times> string" where
  "paymentSchema req =
     (case body_orderId req of
        None \<Rightarrow> Inl (ValidationError ''orderId'')
      | Some (NotUuid x) \<Rightarrow> Inl (ValidationError ''orderId'')
      | Some (Uuid orderId) \<Rightarrow>
     (case required_string ''paymentMethodId'' (body_paymentMethodId req) of
        Inl e \<Rightarrow> Inl e
      | Inr pm \<Rightarrow> Inr (orderId, pm)))"

text \<open>\<^verbatim>\<open>clerkUser.publicMetadata?.stripeCustomerId\<close>, kept when it is truthy.\<close>

definition stripeCustomerId :: "clerk_user \<Rightarrow> string option" where
  "stripeCustomerId cu =
     (case publicMetadata cu of
        None \<Rightarrow> None
      | Some m \<Rightarrow> (case map_of m ''stripeCustomerId'' of
                     None \<Rightarrow> None
                   | Some x \<Rightarrow> if x = [] then None else Some x))"

text \<open>\<^verbatim>\<open>{...(clerkUser.publicMetadata || {}), stripeCustomerId: customerId}\<close>.\<close>

definition merged_metadata :: "clerk_user \<Rightarrow> string \<Rightarrow> (string \<times> string) list" where
  "merged_metadata cu customerId =
     (let m = (case publicMetadata cu of None \<Rightarrow> [] | Some m \<Rightarrow> m)
      in if ''stripeCustomerId'' \<in> set (map fst m)
         then map (\<lambda>(k, x). if k = ''stripeCustomerId'' then (k, customerId) else (k, x)) m
         else m @ [(''stripeCustomerId'', customerId)])"

definition resolve_customer ::
  "external \<Rightarrow> payment_request \<Rightarrow> clerk_user \<Rightarrow> (string + string) \<times> external_call list" where
  "resolve_customer ext req cu =
     (case stripeCustomerId cu of
        Some customerId \<Rightarrow> (Inr customerId, [])
      | None \<Rightarrow>
     (case stripe_customers_create ext (req_email req) (req_clerkId req) of
        Inl m \<Rightarrow> (Inl m, [CustomersCreate (req_email req) (req_clerkId req)])
      | Inr customerId \<Rightarrow>
     (case clerk_updateUserMetadata ext (req_clerkId req) (merged_metadata cu customerId) of
        Inl m \<Rightarrow> (Inl m, [CustomersCreate (req_email req) (req_clerkId req),
                           UpdateUserMetadata (req_clerkId req) (merged_metadata cu customerId)])
      | Inr _ \<Rightarrow> (Inr customerId, [CustomersCreate (req_email req) (req_clerkId req),
                           UpdateUserMetadata (req_clerkId req) (merged_metadata cu customerId)]))))"

text \<open>
  \<^verbatim>\<open>Math.round(parseFloat(order.price) * 100)\<close>: halves round up. A price has two
  decimals, so the exact product is a whole number.
\<close>

definition amountInCents :: "rat \<Rightarrow> int" where
  "amountInCents price = \<lfloor>price * 100 + 1 / 2\<rfloor>"

text \<open>\<^verbatim>\<open>paymentIntent.charges?.data?.[0]?.id || null\<close>.\<close>

definition first_charge_id :: "payment_intent \<Rightarrow> string option" where
  "first_charge_id paymentIntent = (case intent_charge_ids paymentIntent of
     [] \<Rightarrow> None
   | c # _ \<Rightarrow> if c = [] then None else Some c)"

text \<open>
  \<^verbatim>\<open>INSERT INTO payments\<close>: the column \<^verbatim>\<open>stripe_payment_id\<close> is \<^verbatim>\<open>UNIQUE\<close>, and
  \<^verbatim>\<open>order_id\<close> references an order.
\<close>

definition insert_payment :: "payment_row \<Rightarrow> db \<Rightarrow> string + db" where
  "insert_payment p s =
     (if p_order_id p \<notin> set (map o_id (orders s)) then Inl ''23503''
      else if p_stripe_payment_id p \<noteq> None \<and>
              p_stripe_payment_id p \<in> set (map p_stripe_payment_id (payments s))
      then Inl ''23505''
      else Inr (s\<lparr>payments := payments s @ [p]\<rparr>))"

text \<open>The body of the \<^verbatim>\<open>try\<close> block.\<close>

definition charge ::
  "external \<Rightarrow> payment_request \<Rightarrow> db \<Rightarrow>
     (error + payment_row \<times> string option) \<times> db \<times> external_call list" where
  "charge ext req s =
     (case paymentSchema req of
        Inl e \<Rightarrow> (Inl e, s, [])
      | Inr (orderId, paymentMethodId) \<Rightarrow>
     (case user_by_clerk_id s (req_clerkId req) of
        [] \<Rightarrow> (Inl (HttpError 404 ''User not found''), s, [])
      | u # _ \<Rightarrow>
     (case filter (\<lambda>r. o_id r = orderId \<and> o_user_id r = u_id u) (orders s) of
        [] \<Rightarrow> (Inl (HttpError 404 ''Order not found''), s, [])
      | order # _ \<Rightarrow>
     (if filter (\<lambda>p. p_order_id p = orderId \<and> p_status p = PaymentCompleted) (payments s) \<noteq> []
      then (Inl (HttpError 400 ''Order already paid''), s, [])
      else
     (case clerk_getUser ext (req_clerkId req) of
        Inl m \<Rightarrow> (Inl (Thrown m), s, [GetUser (req_clerkId req)])
      | Inr clerkUser \<Rightarrow>
     (case resolve_customer ext req clerkUser of
        (Inl m, calls) \<Rightarrow> (Inl (Thrown m), s, GetUser (req_clerkId req) # calls)
      | (Inr customerId, calls) \<Rightarrow>
          let params = \<lparr>pi_amount = amountInCents (o_price order),
                        pi_currency = ''usd'',
                        pi_customer = customerId,
                        pi_payment_method = paymentMethodId,
                        pi_confirm = True,
                        pi_metadata_orderId = orderId,
                        pi_metadata_userId = u_id u,
                        pi_metadata_clerkId = req_clerkId req\<rparr>;
              calls2 = GetUser (req_clerkId req) # calls @ [PaymentIntentsCreate params]
          in
     (case stripe_paymentIntents_create ext params of
        Inl m \<Rightarrow> (Inl (Thrown m), s, calls2)
      | Inr paymentIntent \<Rightarrow>
          let row = \<lparr>p_id = fresh_id (map p_id (payments s)),
                     p_order_id = orderId,
                     p_user_id = u_id u,
                     p_stripe_payment_id = first_charge_id paymentIntent,
                     p_stripe_payment_intent_id = Some (intent_id paymentIntent),
                     p_amount = o_price order,
                     p_status = (if intent_status paymentIntent = ''succeeded''
                                 then PaymentCompleted else PaymentPending),
                     p_payment_method_id = Some paymentMethodId,
                     p_error_message = None\<rparr>
          in (case insert_payment row s of
                Inl m \<Rightarrow> (Inl (Thrown m), s, calls2)
              | Inr s1 \<Rightarrow> (Inr (row, intent_client_secret paymentIntent), s1, calls2)))))))))"

text \<open>
  The \<^verbatim>\<open>catch\<close> block: an exception (not an answer already sent) leaves a failed payment
  behind when the body names an order and the user has a profile; an insert that fails
  is only logged.
\<close>

definition error_message :: "error \<Rightarrow> string" where
  "error_message e = (case e of ValidationError m \<Rightarrow> m | HttpError n m \<Rightarrow> m | Thrown m \<Rightarrow> m)"

definition log_failed_payment :: "payment_request \<Rightarrow> error \<Rightarrow> db \<Rightarrow> db" where
  "log_failed_payment req e s =
     (case body_orderId req of
        None \<Rightarrow> s
      | Some (NotUuid x) \<Rightarrow> s
      | Some (Uuid orderId) \<Rightarrow>
     (case user_by_clerk_id s (req_clerkId req) of
        [] \<Rightarrow> s
      | u # _ \<Rightarrow>
     (case insert_payment
        \<lparr>p_id = fresh_id (map p_id (payments s)),
         p_order_id = orderId,
         p_user_id = u_id u,
         p_stripe_payment_id = None,
         p_stripe_payment_intent_id = None,
         p_amount = 0,
         p_status = PaymentFailed,
         p_payment_method_id = None,
         p_error_message = Some (error_message e)\<rparr> s of
        Inl m \<Rightarrow> s
      | Inr s1 \<Rightarrow> s1)))"

definition processPayment ::
  "external \<Rightarrow> payment_request \<Rightarrow> db \<Rightarrow>
     (error + payment_row \<times> string option) \<times> db \<times> external_call list" where
  "processPayment ext req s =
     (case charge ext req s of
        (Inl (HttpError n m), s1, calls) \<Rightarrow> (Inl (HttpError n m), s1, calls)
      | (Inl e, s1, calls) \<Rightarrow> (Inl e, log_failed_payment req e s1, calls)
      | (Inr r, s1, calls) \<Rightarrow> (Inr r, s1, calls))"

subsection \<open>stripeWebhook\<close>

record webhook_request =
  raw_body :: string
  stripe_signature :: "string option"

datatype acknowledgement = Received

text \<open>The two \<^verbatim>\<open>UPDATE payments ... WHERE stripe_payment_intent_id = $n\<close> statements.\<close>

definition set_payment_completed :: "string \<Rightarrow> payment_row list \<Rightarrow> payment_row list" where
  "set_payment_completed i rows =
     map (\<lambda>p. if p_stripe_payment_intent_id p = Some i
               then p\<lparr>p_status := PaymentCompleted\<rparr> else p) rows"

definition set_payment_failed ::
  "string \<Rightarrow> string option \<Rightarrow> payment_row list \<Rightarrow> payment_row list" where
  "set_payment_failed i msg rows =
     map (\<lambda>p. if p_stripe_payment_intent_id p = Some i
               then p\<lparr>p_status := PaymentFailed, p_error_message := msg\<rparr> else p) rows"

text \<open>\<open>endpointSecret\<close> is \<^verbatim>\<open>process.env.STRIPE_WEBHOOK_SECRET\<close>.\<close>

definition stripeWebhook ::
  "external \<Rightarrow> string option \<Rightarrow> webhook_request \<Rightarrow> db \<Rightarrow> (error + acknowledgement) \<times> db" where
  "stripeWebhook ext endpointSecret req s =
     (case stripe_constructEvent ext (raw_body req) (stripe_signature req) endpointSecret of
        Inl m \<Rightarrow> (Inl (HttpError 400 (''Webhook Error: '' @ m)), s)
      | Inr event \<Rightarrow>
          if event_type event = ''payment_intent.succeeded''
          then (Inr Received,
                s\<lparr>payments := set_payment_completed (event_object_id event) (payments s)\<rparr>)
          else if event_type event = ''payment_intent.payment_failed''
          then (Inr Received,
                s\<lparr>payments := set_payment_failed (event_object_id event)
                    (event_last_payment_error_message event) (payments s)\<rparr>)
          else (Inr Received, s))"

section \<open>Saved addresses (authController.js)\<close>

subsection \<open>The jsonb operations of the two UPDATE statements\<close>

text \<open>
  PostgreSQL's \<^verbatim>\<open>||\<close> on \<^verbatim>\<open>jsonb\<close>: two arrays are concatenated, two objects are
  merged (the right one wins on a shared key), and in every other case a value that is
  not an array is first wrapped into a one-element array.
\<close>

fun jsonb_concat :: "jsonb \<Rightarrow> jsonb \<Rightarrow> jsonb" where
  "jsonb_concat (JArr xs) (JArr ys) = JArr (xs @ ys)"
| "jsonb_concat (JObj xs) (JObj ys) =
     JObj (filter (\<lambda>kv. fst kv \<notin> set (map fst ys)) xs @ ys)"
| "jsonb_concat (JArr xs) y = JArr (xs @ [y])"
| "jsonb_concat x (JArr ys) = JArr (x # ys)"
| "jsonb_concat x y = JArr [x, y]"

definition jsonb_build_array :: "jsonb \<Rightarrow> jsonb" where
  "jsonb_build_array x = JArr [x]"

text \<open>
  \<^verbatim>\<open>jsonb_array_elements\<close> yields the elements of an array and raises on any other
  value; on SQL NULL it yields no row.
\<close>

definition jsonb_array_elements :: "jsonb option \<Rightarrow> string + jsonb list" where
  "jsonb_array_elements v = (case v of
     None \<Rightarrow> Inr []
   | Some (JArr xs) \<Rightarrow> Inr xs
   | Some _ \<Rightarrow> Inl ''cannot extract elements from a non-array'')"

text \<open>\<^verbatim>\<open>jsonb_agg\<close> over no row is SQL NULL.\<close>

definition jsonb_agg :: "jsonb list \<Rightarrow> jsonb option" where
  "jsonb_agg xs = (if xs = [] then None else Some (JArr xs))"

definition COALESCE :: "'a option \<Rightarrow> 'a \<Rightarrow> 'a" where
  "COALESCE v d = (case v of None \<Rightarrow> d | Some x \<Rightarrow> x)"

subsection \<open>upsertProfile\<close>

record profile_body =
  name_in :: "string option"
  phone_in :: "string option"
  defaultAddress_in :: "address_body option"

definition optional_string :: "string \<Rightarrow> nat \<Rightarrow> string option \<Rightarrow> error + string option" where
  "optional_string key n v = (case v of
     None \<Rightarrow> Inr None
   | Some x \<Rightarrow> if x = [] \<or> length x > n then Inl (ValidationError key) else Inr (Some x))"

definition profileSchema ::
  "profile_body \<Rightarrow> error + string option \<times> string option \<times> address option" where
  "profileSchema b =
     (case optional_string ''name'' 255 (name_in b) of Inl e \<Rightarrow> Inl e | Inr nm \<Rightarrow>
     (case optional_string ''phone'' 50 (phone_in b) of Inl e \<Rightarrow> Inl e | Inr ph \<Rightarrow>
     (case defaultAddress_in b of
        None \<Rightarrow> Inr (nm, ph, None)
      | Some a \<Rightarrow>
     (case address_schema ''defaultAddress'' (Some a) of Inl e \<Rightarrow> Inl e | Inr ad \<Rightarrow>
        Inr (nm, ph, Some ad)))))"

text \<open>
  The \<^verbatim>\<open>INSERT INTO users\<close> leaves \<^verbatim>\<open>saved_addresses\<close> to its column default
  \<^verbatim>\<open>'[]'::jsonb\<close>.
\<close>

definition upsertProfile ::
  "string \<Rightarrow> profile_body \<Rightarrow> db \<Rightarrow> (error + user_row option) \<times> db" where
  "upsertProfile clerkId body s =
     (case profileSchema body of
        Inl e \<Rightarrow> (Inl e, s)
      | Inr (nm, ph, ad) \<Rightarrow>
          if user_by_clerk_id s clerkId \<noteq> []
          then
            let s1 = s\<lparr>users := map (\<lambda>u. if u_clerk_id u = clerkId
                         then u\<lparr>u_name := (case nm of None \<Rightarrow> u_name u | Some x \<Rightarrow> Some x),
                                u_phone := (case ph of None \<Rightarrow> u_phone u | Some x \<Rightarrow> Some x),
                                u_default_address :=
                                  (case ad of None \<Rightarrow> u_default_address u | Some x \<Rightarrow> Some x)\<rparr>
                         else u) (users s)\<rparr>
            in (Inr (first_row (user_by_clerk_id s1 clerkId)), s1)
          else
            let row = \<lparr>u_id = fresh_id (map u_id (users s)),
                       u_clerk_id = clerkId,
                       u_name = nm,
                       u_phone = ph,
                       u_default_address = ad,
                       u_saved_addresses = Some (JArr [])\<rparr>
            in (Inr (Some row), s\<lparr>users := users s @ [row]\<rparr>))"

subsection \<open>addAddress\<close>

record saved_address_body = address_body +
  label_in :: "string option"

text \<open>\<^verbatim>\<open>JSON.stringify(value)\<close> of a validated address, read as \<^verbatim>\<open>jsonb\<close>.\<close>

definition optional_number :: "string \<Rightarrow> rat option \<Rightarrow> (string \<times> jsonb) list" where
  "optional_number key v = (case v of None \<Rightarrow> [] | Some r \<Rightarrow> [(key, JNum r)])"

definition addressSchema :: "saved_address_body \<Rightarrow> error + jsonb" where
  "addressSchema b =
     (case required_string ''label'' (label_in b) of Inl e \<Rightarrow> Inl e | Inr lb \<Rightarrow>
     (case required_string ''street'' (street_in b) of Inl e \<Rightarrow> Inl e | Inr st \<Rightarrow>
     (case required_string ''city'' (city_in b) of Inl e \<Rightarrow> Inl e | Inr ci \<Rightarrow>
     (case required_string ''state'' (state_in b) of Inl e \<Rightarrow> Inl e | Inr sa \<Rightarrow>
     (case required_string ''zipCode'' (zipCode_in b) of Inl e \<Rightarrow> Inl e | Inr z \<Rightarrow>
     (case joi_number ''latitude'' (latitude_in b) of Inl e \<Rightarrow> Inl e | Inr la \<Rightarrow>
     (case joi_number ''longitude'' (longitude_in b) of Inl e \<Rightarrow> Inl e | Inr lo \<Rightarrow>
        Inr (JObj ([(''label'', JStr lb), (''street'', JStr st), (''city'', JStr ci),
                    (''state'', JStr sa), (''zipCode'', JStr z)]
                   @ optional_number ''latitude'' la
                   @ optional_number ''longitude'' lo)))))))))"

text \<open>\<^verbatim>\<open>saved_addresses || jsonb_build_array($1::jsonb)\<close>; SQL NULL on the left stays NULL.\<close>

definition append_address :: "jsonb option \<Rightarrow> jsonb \<Rightarrow> jsonb option" where
  "append_address saved a = (case saved of
     None \<Rightarrow> None
   | Some x \<Rightarrow> Some (jsonb_concat x (jsonb_build_array a)))"

definition addAddress ::
  "string \<Rightarrow> saved_address_body \<Rightarrow> db \<Rightarrow> (error + user_row) \<times> db" where
  "addAddress clerkId body s =
     (case addressSchema body of
        Inl e \<Rightarrow> (Inl e, s)
      | Inr v \<Rightarrow>
          let s1 = s\<lparr>users := map (\<lambda>u. if u_clerk_id u = clerkId
                       then u\<lparr>u_saved_addresses := append_address (u_saved_addresses u) v\<rparr>
                       else u) (users s)\<rparr>
          in (case user_by_clerk_id s1 clerkId of
                [] \<Rightarrow> (Inl (HttpError 404 ''Profile not found''), s1)
              | u # _ \<Rightarrow> (Inr u, s1)))"

subsection \<open>removeAddress\<close>

text \<open>
  \<^verbatim>\<open>parseInt(index, 10)\<close>: leading white space, an optional sign, then the longest run
  of decimal digits; \<open>None\<close> is NaN. The result is a JavaScript number: \<open>to_double\<close>
  rounds the value of the digits to the nearest number with a 53-bit significand, ties
  to even.
\<close>

definition is_space :: "char \<Rightarrow> bool" where
  "is_space c \<longleftrightarrow> c \<in> set [CHR '' '', CHR 0x09, CHR 0x0A, CHR 0x0B, CHR 0x0C, CHR 0x0D]"

definition digit_value :: "char \<Rightarrow> nat option" where
  "digit_value c = map_of
     [(CHR ''0'', 0), (CHR ''1'', 1), (CHR ''2'', 2), (CHR ''3'', 3), (CHR ''4'', 4),
      (CHR ''5'', 5), (CHR ''6'', 6), (CHR ''7'', 7), (CHR ''8'', 8), (CHR ''9'', 9)] c"

definition digits_value :: "string \<Rightarrow> nat" where
  "digits_value ds = foldl (\<lambda>a c. 10 * a + (case digit_value c of None \<Rightarrow> 0 | Some d \<Rightarrow> d)) 0 ds"

fun bit_length :: "nat \<Rightarrow> nat" where
  "bit_length n = (if n = 0 then 0 else Suc (bit_length (n div 2)))"

declare bit_length.simps [simp del]

definition to_double :: "nat \<Rightarrow> nat" where
  "to_double n =
     (if bit_length n \<le> 53 then n
      else
        let e = bit_length n - 53;
            q = n div 2 ^ e;
            r = n mod 2 ^ e;
            h = 2 ^ (e - 1)
        in (if r > h \<or> (r = h \<and> odd q) then q + 1 else q) * 2 ^ e)"

definition parseInt :: "string \<Rightarrow> int option" where
  "parseInt x =
     (let t = dropWhile is_space x;
          neg = (case t of [] \<Rightarrow> False | c # _ \<Rightarrow> c = CHR ''-'');
          u = (case t of [] \<Rightarrow> [] | c # cs \<Rightarrow> if c = CHR ''-'' \<or> c = CHR ''+'' then cs else t);
          ds = takeWhile (\<lambda>c. digit_value c \<noteq> None) u
      in if ds = [] then None
         else Some (if neg then - int (to_double (digits_value ds))
                    else int (to_double (digits_value ds))))"

text \<open>
  The elements whose position (\<^verbatim>\<open>idx - 1\<close>, from 0) is not \<^verbatim>\<open>$1\<close>, aggregated again;
  \<^verbatim>\<open>COALESCE(..., '[]'::jsonb)\<close> turns the NULL of an empty aggregate into an empty array.
  \<^verbatim>\<open>$1\<close> is compared with a \<^verbatim>\<open>bigint\<close> and is sent as the text of the number: from
  \<^verbatim>\<open>1e21\<close> on that text is in exponent notation and is no integer (22P02), and below
  that a value beyond \<^verbatim>\<open>bigint\<close> is out of range (22003). In both cases nothing is
  changed and the error goes to \<^verbatim>\<open>next\<close>.
\<close>

definition without_index :: "int \<Rightarrow> jsonb list \<Rightarrow> jsonb list" where
  "without_index n xs =
     map fst (filter (\<lambda>ek. int (snd ek) \<noteq> n) (zip xs [0..<length xs]))"

definition remove_at :: "int \<Rightarrow> jsonb option \<Rightarrow> string + jsonb option" where
  "remove_at n saved = (case jsonb_array_elements saved of
     Inl m \<Rightarrow> Inl m
   | Inr xs \<Rightarrow> Inr (Some (COALESCE (jsonb_agg (without_index n xs)) (JArr []))))"

definition removeAddress :: "string \<Rightarrow> string \<Rightarrow> db \<Rightarrow> (error + user_row) \<times> db" where
  "removeAddress clerkId index s =
     (case parseInt index of
        None \<Rightarrow> (Inl (HttpError 400 ''Invalid index parameter''), s)
      | Some parsedIndex \<Rightarrow>
          if parsedIndex < 0 then (Inl (HttpError 400 ''Invalid index parameter''), s)
          else if parsedIndex \<ge> 1000000000000000000000 then (Inl (Thrown ''22P02''), s)
          else if parsedIndex > 9223372036854775807 then (Inl (Thrown ''22003''), s)
          else
            if list_ex (\<lambda>u. u_clerk_id u = clerkId \<and>
                             isl (remove_at parsedIndex (u_saved_addresses u))) (users s)
            then (Inl (Thrown ''cannot extract elements from a non-array''), s)
            else
              let s1 = s\<lparr>users := map (\<lambda>u. if u_clerk_id u = clerkId
                           then u\<lparr>u_saved_addresses :=
                                    (case remove_at parsedIndex (u_saved_addresses u) of
                                       Inl m \<Rightarrow> u_saved_addresses u
                                     | Inr v \<Rightarrow> v)\<rparr>
                           else u) (users s)\<rparr>
              in (case user_by_clerk_id s1 clerkId of
                    [] \<Rightarrow> (Inl (HttpError 404 ''Profile not found''), s1)
                  | u # _ \<Rightarrow> (Inr u, s1)))"

section \<open>Client polling coordinator (OrderManager.swift)\<close>

text \<open>
  \<open>pollingTasks\<close> is the registry of \<^verbatim>\<open>OrderManager\<close>, from order id to task handle; a
  handle is the position of the task in \<open>tasks\<close>, the list of every task created so far.
  A task is followed from one suspension point of its body to the next:
  \<^item> \<open>LoopTest\<close>: about to evaluate \<^verbatim>\<open>while !Task.isCancelled\<close>;
  \<^item> \<open>Sleeping\<close>: inside \<^verbatim>\<open>Task.sleep\<close>;
  \<^item> \<open>Fetching\<close>: inside \<^verbatim>\<open>fetchOrderDetails\<close>;
  \<^item> \<open>Stopping\<close>: a terminal status was fetched, \<^verbatim>\<open>stopRealTimeUpdates\<close> is about to run
    on the main actor;
  \<^item> \<open>Cleanup\<close>: the loop is left, the closing \<^verbatim>\<open>pollingTasks.removeValue\<close> is about to run
    on the main actor;
  \<^item> \<open>Finished\<close>: the task body has returned.
\<close>

datatype task_pc = LoopTest | Sleeping | Fetching | Stopping | Cleanup | Finished

record polling_task =
  task_orderId :: string
  isCancelled :: bool
  pc :: task_pc

record order_manager =
  pollingTasks :: "(string \<times> nat) list"
  tasks :: "polling_task list"

datatype fetch_result = Fetched order_status | FetchFailed

definition isCompleted :: "order_status \<Rightarrow> bool" where
  "isCompleted st \<longleftrightarrow> st = Completed \<or> st = Cancelled"

text \<open>\<^verbatim>\<open>task.cancel()\<close> on a handle.\<close>

definition cancel :: "nat \<Rightarrow> polling_task list \<Rightarrow> polling_task list" where
  "cancel h ts = (if h < length ts then ts[h := (ts ! h)\<lparr>isCancelled := True\<rparr>] else ts)"

definition removeValue :: "string \<Rightarrow> (string \<times> nat) list \<Rightarrow> (string \<times> nat) list" where
  "removeValue orderId reg = filter (\<lambda>kv. fst kv \<noteq> orderId) reg"

definition stopRealTimeUpdates :: "string \<Rightarrow> order_manager \<Rightarrow> order_manager" where
  "stopRealTimeUpdates orderId m =
     (let ts = (case map_of (pollingTasks m) orderId of
                  None \<Rightarrow> tasks m
                | Some h \<Rightarrow> cancel h (tasks m))
      in m\<lparr>pollingTasks := removeValue orderId (pollingTasks m), tasks := ts\<rparr>)"

definition startRealTimeUpdates :: "string \<Rightarrow> order_manager \<Rightarrow> order_manager" where
  "startRealTimeUpdates orderId m =
     (let m1 = stopRealTimeUpdates orderId m;
          h = length (tasks m1);
          task = \<lparr>task_orderId = orderId, isCancelled = False, pc = LoopTest\<rparr>
      in m1\<lparr>tasks := tasks m1 @ [task],
            pollingTasks := (orderId, h) # removeValue orderId (pollingTasks m1)\<rparr>)"

definition stopAllRealTimeUpdates :: "order_manager \<Rightarrow> order_manager" where
  "stopAllRealTimeUpdates m =
     m\<lparr>tasks := fold cancel (map snd (pollingTasks m)) (tasks m), pollingTasks := []\<rparr>"

text \<open>
  The body of the task, one step at a time. \<open>resume\<close> runs the task up to its next
  suspension point when no value is awaited; \<open>wake\<close> ends the sleep (the interval has
  elapsed, or the task was cancelled); \<open>fetched\<close> delivers the outcome of the request.
\<close>

definition set_pc :: "nat \<Rightarrow> task_pc \<Rightarrow> order_manager \<Rightarrow> order_manager" where
  "set_pc h p m = m\<lparr>tasks := (tasks m)[h := (tasks m ! h)\<lparr>pc := p\<rparr>]\<rparr>"

definition resume :: "nat \<Rightarrow> order_manager \<Rightarrow> order_manager" where
  "resume h m =
     (if h \<ge> length (tasks m) then m
      else let t = tasks m ! h in
        (case pc t of
           LoopTest \<Rightarrow> if isCancelled t then set_pc h Cleanup m else set_pc h Sleeping m
         | Stopping \<Rightarrow> set_pc h Cleanup (stopRealTimeUpdates (task_orderId t) m)
         | Cleanup \<Rightarrow>
             set_pc h Finished (m\<lparr>pollingTasks := removeValue (task_orderId t) (pollingTasks m)\<rparr>)
         | _ \<Rightarrow> m))"

definition wake :: "nat \<Rightarrow> order_manager \<Rightarrow> order_manager" where
  "wake h m =
     (if h \<ge> length (tasks m) then m
      else let t = tasks m ! h in
        if pc t \<noteq> Sleeping then m
        else if isCancelled t then set_pc h Cleanup m
        else set_pc h Fetching m)"

definition fetched :: "nat \<Rightarrow> fetch_result \<Rightarrow> order_manager \<Rightarrow> order_manager" where
  "fetched h r m =
     (if h \<ge> length (tasks m) then m
      else let t = tasks m ! h in
        if pc t \<noteq> Fetching then m
        else (case r of
                FetchFailed \<Rightarrow> set_pc h LoopTest m
              | Fetched st \<Rightarrow> if isCompleted st then set_pc h Stopping m
                              else set_pc h LoopTest m))"

datatype event =
  Start string | Stop string | StopAll
  | Resume nat | Wake nat | Deliver nat fetch_result

fun step :: "event \<Rightarrow> order_manager \<Rightarrow> order_manager" where
  "step (Start orderId) m = startRealTimeUpdates orderId m"
| "step (Stop orderId) m = stopRealTimeUpdates orderId m"
| "step StopAll m = stopAllRealTimeUpdates m"
| "step (Resume h) m = resume h m"
| "step (Wake h) m = wake h m"
| "step (Deliver h r) m = fetched h r m"

definition run :: "event list \<Rightarrow> order_manager \<Rightarrow> order_manager" where
  "run evs m = fold step evs m"

text \<open>A timer is active while its task may still fetch: not cancelled, and still in the loop.\<close>

definition active :: "polling_task \<Rightarrow> bool" where
  "active t \<longleftrightarrow> \<not> isCancelled t \<and> pc t \<in> set [LoopTest, Sleeping, Fetching]"

definition active_timers :: "string \<Rightarrow> order_manager \<Rightarrow> polling_task list" where
  "active_timers orderId m = filter (\<lambda>t. task_orderId t = orderId \<and> active t) (tasks m)"

definition initial_manager :: order_manager where
  "initial_manager = \<lparr>pollingTasks = [], tasks = []\<rparr>"

section \<open>Notions used to state the properties\<close>

definition creation_entry :: "nat \<Rightarrow> nat \<Rightarrow> history_row" where
  "creation_entry i uid = \<lparr>h_order_id = i, h_old_status = None,
      h_new_status = Pending, h_changed_by = Some uid, h_notes = None\<rparr>"

definition cancel_entry :: "nat \<Rightarrow> order_status \<Rightarrow> nat \<Rightarrow> history_row" where
  "cancel_entry i old uid = \<lparr>h_order_id = i, h_old_status = Some old,
      h_new_status = Cancelled, h_changed_by = Some uid,
      h_notes = Some ''Cancelled by customer''\<rparr>"

fun updateOrderStatus_seq ::
  "nat \<Rightarrow> update_status_body list \<Rightarrow> db \<Rightarrow> (error + order_row option) list \<times> db" where
  "updateOrderStatus_seq i [] s = ([], s)"
| "updateOrderStatus_seq i (b # bs) s =
     (case updateOrderStatus i b s of (r, s1) \<Rightarrow>
        (case updateOrderStatus_seq i bs s1 of (rs, s2) \<Rightarrow> (r # rs, s2)))"

fun history_chain :: "order_status option \<Rightarrow> history_row list \<Rightarrow> bool" where
  "history_chain prev [] = True"
| "history_chain prev (h # hs) =
     (h_old_status h = prev \<and> history_chain (Some (h_new_status h)) hs)"

definition target_status :: "update_status_body \<Rightarrow> order_status option" where
  "target_status b = (case updateStatusSchema b of Inl e \<Rightarrow> None | Inr (st, nt) \<Rightarrow> Some st)"

fun answers_match ::
  "(error + order_row option) list \<Rightarrow> update_status_body list \<Rightarrow> bool" where
  "answers_match [] [] = True"
| "answers_match (Inr (Some row) # rs) (b # bs) =
     (target_status b = Some (o_status row) \<and> answers_match rs bs)"
| "answers_match rs bs = False"

definition status_entry :: "nat \<Rightarrow> order_status \<Rightarrow> order_status \<Rightarrow> string option \<Rightarrow> history_row" where
  "status_entry i old new nt = \<lparr>h_order_id = i, h_old_status = Some old,
      h_new_status = new, h_changed_by = None, h_notes = nt\<rparr>"

text \<open>What a run of transitions keeps true of one order and its history.\<close>

definition tracked :: "db \<Rightarrow> nat \<Rightarrow> order_status \<Rightarrow> nat \<Rightarrow> bool" where
  "tracked s i st n \<longleftrightarrow>
     map o_status (filter (\<lambda>r. o_id r = i) (orders s)) = [st] \<and>
     length (history_of s i) = n \<and>
     history_chain None (history_of s i) \<and>
     map h_new_status (history_of s i) \<noteq> [] \<and>
     last (map h_new_status (history_of s i)) = st"

datatype address_op = AddAddress saved_address_body | RemoveAddress string

fun apply_address_op :: "string \<Rightarrow> address_op \<Rightarrow> db \<Rightarrow> (error + user_row) \<times> db" where
  "apply_address_op clerkId (AddAddress body) s = addAddress clerkId body s"
| "apply_address_op clerkId (RemoveAddress index) s = removeAddress clerkId index s"

definition apply_address_ops :: "string \<Rightarrow> address_op list \<Rightarrow> db \<Rightarrow> db" where
  "apply_address_ops clerkId ops s = fold (\<lambda>op t. snd (apply_address_op clerkId op t)) ops s"

text \<open>The profile of \<open>clerkId\<close> is one row whose saved addresses are the array \<open>xs\<close>.\<close>

definition saved_list :: "db \<Rightarrow> string \<Rightarrow> jsonb list \<Rightarrow> bool" where
  "saved_list s clerkId xs \<longleftrightarrow>
     map u_saved_addresses (user_by_clerk_id s clerkId) = [Some (JArr xs)]"

section \<open>Concrete requests and stores\<close>

definition home_body :: address_body where
  "home_body = \<lparr>street_in = Some ''123 Main St'', city_in = Some ''Springfield'',
     state_in = Some ''IL'', zipCode_in = Some ''62701'',
     latitude_in = None, longitude_in = None\<rparr>"

definition home :: address where
  "home = \<lparr>street = ''123 Main St'', city = ''Springfield'', state = ''IL'',
     zipCode = ''62701'', latitude = None, longitude = None\<rparr>"

definition alice :: user_row where
  "alice = \<lparr>u_id = 1, u_clerk_id = ''user_alice'', u_name = Some ''Alice'', u_phone = None,
     u_default_address = None, u_saved_addresses = Some (JArr [])\<rparr>"

definition db_alice :: db where
  "db_alice = \<lparr>users = [alice], orders = [], order_status_history = [], payments = []\<rparr>"

definition express_body :: create_order_body where
  "express_body = \<lparr>pickupAddress_in = Some home_body, deliveryAddress_in = Some home_body,
     scheduledTime_in = Some (IsoDate 1700000000), serviceType_in = Some ''express'',
     itemCount_in = Some 5, notes_in = None\<rparr>"

definition express_value :: create_order_value where
  "express_value = \<lparr>pickupAddress = home, deliveryAddress = home,
     scheduledTime = 1700000000, serviceType = Express, itemCount = 5, notes_val = None\<rparr>"

definition oversized_body :: create_order_body where
  "oversized_body = express_body\<lparr>itemCount_in := Some 2147483648\<rparr>"

definition oversized_value :: create_order_value where
  "oversized_value = express_value\<lparr>itemCount := 2147483648\<rparr>"

definition express_order :: order_row where
  "express_order = \<lparr>o_id = 1, o_user_id = 1, o_pickup_address = home,
     o_delivery_address = home, o_scheduled_time = 1700000000, o_status = Pending,
     o_service_type = Express, o_item_count = 5, o_price = 40, o_driver_id = None,
     o_driver_location = None, o_notes = None\<rparr>"

definition db_ordered :: db where
  "db_ordered = \<lparr>users = [alice], orders = [express_order],
     order_status_history = [creation_entry 1 1], payments = []\<rparr>"

definition status_request :: "string \<Rightarrow> update_status_body" where
  "status_request x = \<lparr>status_in = Some x, status_notes_in = None\<rparr>"

definition completed_order :: order_row where
  "completed_order = express_order\<lparr>o_id := 2, o_status := Completed\<rparr>"

definition paid_payment :: payment_row where
  "paid_payment = \<lparr>p_id = 1, p_order_id = 2, p_user_id = 1,
     p_stripe_payment_id = Some ''ch_2'', p_stripe_payment_intent_id = Some ''pi_2'',
     p_amount = 40, p_status = PaymentCompleted, p_payment_method_id = Some ''pm_card'',
     p_error_message = None\<rparr>"

definition pending_payment :: payment_row where
  "pending_payment = \<lparr>p_id = 2, p_order_id = 1, p_user_id = 1,
     p_stripe_payment_id = None, p_stripe_payment_intent_id = Some ''pi_1'',
     p_amount = 40, p_status = PaymentPending, p_payment_method_id = Some ''pm_card'',
     p_error_message = None\<rparr>"

definition db_two :: db where
  "db_two = \<lparr>users = [alice], orders = [express_order, completed_order],
     order_status_history = [creation_entry 1 1, creation_entry 2 1,
       status_entry 2 Pending Completed None],
     payments = [paid_payment, pending_payment]\<rparr>"

definition event_of :: "string \<Rightarrow> string \<Rightarrow> stripe_event" where
  "event_of ty i = \<lparr>event_type = ty, event_object_id = i,
     event_last_payment_error_message = Some ''Your card was declined.''\<rparr>"

text \<open>Services that answer every call; a signature verifies when it is \<open>valid\<close>.\<close>

definition services :: "stripe_event \<Rightarrow> external" where
  "services ev = \<lparr>
     clerk_getUser = (\<lambda>c. Inr \<lparr>publicMetadata = None\<rparr>),
     stripe_customers_create = (\<lambda>email c. Inr ''cus_1''),
     clerk_updateUserMetadata = (\<lambda>c m. Inr ()),
     stripe_paymentIntents_create = (\<lambda>p. Inr \<lparr>intent_id = ''pi_9'',
        intent_status = ''succeeded'', intent_charge_ids = [''ch_9''],
        intent_client_secret = Some ''pi_9_secret''\<rparr>),
     stripe_constructEvent = (\<lambda>b sg sec.
        if sg = Some ''valid'' then Inr ev
        else Inl ''No signatures found matching the expected signature for payload'')\<rparr>"

definition signed_request :: webhook_request where
  "signed_request = \<lparr>raw_body = ''{}'', stripe_signature = Some ''valid''\<rparr>"

definition forged_request :: webhook_request where
  "forged_request = \<lparr>raw_body = ''{}'', stripe_signature = Some ''forged''\<rparr>"

definition charge_request :: payment_request where
  "charge_request = \<lparr>req_clerkId = ''user_alice'', req_email = Some ''alice@example.com'',
     body_orderId = Some (Uuid 2), body_paymentMethodId = Some ''pm_card''\<rparr>"

definition db_empty :: db where
  "db_empty = \<lparr>users = [], orders = [], order_status_history = [], payments = []\<rparr>"

definition alice_profile :: profile_body where
  "alice_profile = \<lparr>name_in = Some ''Alice'', phone_in = None, defaultAddress_in = None\<rparr>"

definition home_saved :: saved_address_body where
  "home_saved = \<lparr>street_in = Some ''123 Main St'', city_in = Some ''Springfield'',
     state_in = Some ''IL'', zipCode_in = Some ''62701'',
     latitude_in = None, longitude_in = None, label_in = Some ''Home''\<rparr>"

definition work_saved :: saved_address_body where
  "work_saved = \<lparr>street_in = Some ''1 Office Park'', city_in = Some ''Springfield'',
     state_in = Some ''IL'', zipCode_in = Some ''62702'',
     latitude_in = Some 0, longitude_in = None, label_in = Some ''Work''\<rparr>"

definition home_json :: jsonb where
  "home_json = JObj [(''label'', JStr ''Home''), (''street'', JStr ''123 Main St''),
     (''city'', JStr ''Springfield''), (''state'', JStr ''IL''), (''zipCode'', JStr ''62701'')]"

definition work_json :: jsonb where
  "work_json = JObj [(''label'', JStr ''Work''), (''street'', JStr ''1 Office Park''),
     (''city'', JStr ''Springfield''), (''state'', JStr ''IL''), (''zipCode'', JStr ''62702''),
     (''latitude'', JNum 0)]"

definition order_1 :: string where
  "order_1 = ''order_1''"

definition restart_trace :: "event list" where
  "restart_trace = [Start order_1, Resume 0, Start order_1, Wake 0, Resume 0]"

lemma foldr_max_ge: "x \<in> set ids \<Longrightarrow> x \<le> foldr max ids (0::nat)"
  by (induction ids) (auto simp: max_def)

lemma fresh_id_notin: "fresh_id ids \<notin> set ids"
proof
  assume "fresh_id ids \<in> set ids"
  then have "fresh_id ids \<le> foldr max ids 0" by (rule foldr_max_ge)
  then show False by (simp add: fresh_id_def)
qed

lemma history_of_fresh:
  assumes "db_ok s" and "i \<notin> set (map o_id (orders s))"
  shows "history_of s i = []"
  using assms unfolding db_ok_def history_of_def
  by (auto simp: list_all_iff filter_empty_conv)

lemma filter_set_status:
  "filter (\<lambda>r. o_id r = i) (set_status i st rows) =
     map (\<lambda>r. r\<lparr>o_status := st\<rparr>) (filter (\<lambda>r. o_id r = i) rows)"
  by (induction rows) (simp_all add: set_status_def)

lemma express_valid: "createOrderSchema express_body = Inr express_value"
  by (simp add: createOrderSchema_def express_body_def express_value_def address_schema_def
      required_string_def joi_number_def home_body_def home_def service_type_of_string_def
      itemCount_schema_def notes_schema_def)

lemma oversized_valid: "createOrderSchema oversized_body = Inr oversized_value"
  by (simp add: createOrderSchema_def oversized_body_def oversized_value_def express_body_def
      express_value_def address_schema_def required_string_def joi_number_def home_body_def
      home_def service_type_of_string_def itemCount_schema_def notes_schema_def)

lemma alice_found: "user_by_clerk_id db_alice ''user_alice'' = alice # []"
  by (simp add: user_by_clerk_id_def db_alice_def alice_def)

lemma db_alice_ok: "db_ok db_alice"
  by (simp add: db_ok_def db_alice_def)

lemma createOrder_express:
  "createOrder ''user_alice'' express_body db_alice = (Inr express_order, db_ordered)"
  by (simp add: createOrder_def express_valid user_by_clerk_id_def Let_def express_value_def
      express_order_def db_ordered_def db_alice_def fresh_id_def pricingMap_def alice_def
      creation_entry_def)

lemma alice_found_two: "user_by_clerk_id db_two ''user_alice'' = alice # []"
  by (simp add: user_by_clerk_id_def db_two_def alice_def)

lemma event_of_type: "event_type (event_of ty i) = ty"
  by (simp add: event_of_def)

lemma event_of_id: "event_object_id (event_of ty i) = i"
  by (simp add: event_of_def)

lemma target_status_request:
  "order_status_of_string x = Some st \<Longrightarrow> target_status (status_request x) = Some st"
  by (simp add: target_status_def status_request_def updateStatusSchema_def notes_schema_def)

lemma saved_list_unique: "saved_list s c xs \<Longrightarrow> saved_list s c ys \<Longrightarrow> xs = ys"
  by (simp add: saved_list_def)

lemma history_chain_snoc:
  "history_chain prev (hs @ [h]) \<longleftrightarrow>
     history_chain prev hs \<and>
     h_old_status h = (if hs = [] then prev else Some (h_new_status (last hs)))"
  by (induction hs arbitrary: prev) auto

lemma updateOrderStatus_ok:
  assumes v: "updateStatusSchema b = Inr (st, nt)"
    and o: "filter (\<lambda>r. o_id r = i) (orders s) = cur # rest"
  shows "updateOrderStatus i b s =
     (Inr (Some (cur\<lparr>o_status := st\<rparr>)),
      s\<lparr>orders := set_status i st (orders s),
        order_status_history := order_status_history s @ [status_entry i (o_status cur) st nt]\<rparr>)"
  by (simp add: updateOrderStatus_def v o Let_def filter_set_status status_entry_def
      first_row_def)

lemma tracked_step:
  assumes t: "tracked s i old n"
    and v: "updateStatusSchema b = Inr (st, nt)"
  shows "\<exists>row s'. updateOrderStatus i b s = (Inr (Some row), s') \<and> o_status row = st
           \<and> tracked s' i st (Suc n)"
proof -
  from t obtain cur where cur: "filter (\<lambda>r. o_id r = i) (orders s) = [cur]" and old: "o_status cur = old"
    unfolding tracked_def by (cases "filter (\<lambda>r. o_id r = i) (orders s)") auto
  let ?s' = "s\<lparr>orders := set_status i st (orders s),
        order_status_history := order_status_history s @ [status_entry i (o_status cur) st nt]\<rparr>"
  have r: "updateOrderStatus i b s = (Inr (Some (cur\<lparr>o_status := st\<rparr>)), ?s')"
    using v cur by (rule updateOrderStatus_ok)
  have h: "history_of ?s' i = history_of s i @ [status_entry i old st nt]"
    by (simp add: history_of_def status_entry_def old)
  have ne: "history_of s i \<noteq> []" using t unfolding tracked_def by auto
  have lst: "h_new_status (last (history_of s i)) = old"
    using t ne unfolding tracked_def by (simp add: last_map)
  have "tracked ?s' i st (Suc n)"
    unfolding tracked_def h
    using t ne lst
    by (simp add: tracked_def filter_set_status cur history_chain_snoc status_entry_def)
  with r show ?thesis by simp
qed

lemma tracked_seq:
  assumes "tracked s i old n"
    and "map target_status reqs = map Some targets"
  shows "\<exists>rs s'. updateOrderStatus_seq i reqs s = (rs, s') \<and> answers_match rs reqs
      \<and> tracked s' i (last (old # targets)) (n + length reqs)"
  using assms
proof (induction reqs arbitrary: s old n targets)
  case Nil
  then show ?case by simp
next
  case (Cons b bs)
  from Cons.prems(2) obtain st ts where ts: "targets = st # ts"
    and tb: "target_status b = Some st" and tbs: "map target_status bs = map Some ts"
    by (cases targets) auto
  from tb obtain nt where v: "updateStatusSchema b = Inr (st, nt)"
    by (auto simp: target_status_def split: sum.splits)
  from tracked_step [OF Cons.prems(1) v] obtain row s1 where
    r: "updateOrderStatus i b s = (Inr (Some row), s1)" and st: "o_status row = st"
    and t1: "tracked s1 i st (Suc n)" by blast
  from Cons.IH [OF t1 tbs] obtain rs s2 where
    seq: "updateOrderStatus_seq i bs s1 = (rs, s2)" and am: "answers_match rs bs"
    and t2: "tracked s2 i (last (st # ts)) (Suc n + length bs)"
    by blast
  have l: "last (old # targets) = last (st # ts)" by (simp add: ts)
  show ?case
    unfolding l using r seq am t2 st tb by simp
qed

lemma createOrder_tracked:
  assumes c: "createOrder clerkId body s0 = (Inr row, s)" and ok: "db_ok s0"
  shows "tracked s (o_id row) Pending 1"
proof -
  from c obtain v u us where v: "createOrderSchema body = Inr v"
    and u: "user_by_clerk_id s0 clerkId = u # us"
    and n: "itemCount v \<le> 2147483647"
    by (auto simp: createOrder_def Let_def split: sum.splits list.splits if_splits)
  let ?i = "fresh_id (map o_id (orders s0))"
  from c have row: "o_id row = ?i" "o_status row = Pending"
    and s: "orders s = orders s0 @ [row]"
     "order_status_history s = order_status_history s0 @ [creation_entry ?i (u_id u)]"
    using n by (auto simp: createOrder_def Let_def v u creation_entry_def)
  have fresh: "?i \<notin> set (map o_id (orders s0))" by (rule fresh_id_notin)
  then have "\<forall>x\<in>set (orders s0). o_id x \<noteq> ?i" by force
  then have f: "filter (\<lambda>r. o_id r = ?i) (orders s0) = []"
    by (simp add: filter_empty_conv)
  have h: "history_of s0 ?i = []" using ok fresh by (rule history_of_fresh)
  then have h': "history_of s ?i = [creation_entry ?i (u_id u)]"
    by (simp add: history_of_def s creation_entry_def)
  show ?thesis
    unfolding tracked_def row h'
    by (simp add: s f row creation_entry_def)
qed

text \<open>
  Claim C1. An order is created, and then any finite sequence of status-transition
  requests is sent for it, each one accepted by \<^verbatim>\<open>updateStatusSchema\<close> (its target is one
  of the seven statuses). Every request succeeds and returns the order in the requested
  status, whatever the status was before: no edge of the state graph is checked, not even
  out of \<open>Completed\<close> or \<open>Cancelled\<close>. Afterwards the order's status is the target of the
  last request (\<open>Pending\<close> when there was none), the order has exactly N + 1 history
  entries, the creation entry included, the first entry has no old status and the old
  status of every later entry is the new status of the entry before it.
\<close>

theorem C1_status_transitions:
  assumes c: "createOrder clerkId body s0 = (Inr row, s)" and ok: "db_ok s0"
    and reqs: "map target_status reqs = map Some targets"
  shows "\<exists>rs s'. updateOrderStatus_seq (o_id row) reqs s = (rs, s')
      \<and> answers_match rs reqs
      \<and> map o_status (filter (\<lambda>r. o_id r = o_id row) (orders s')) =
           [last (Pending # targets)]
      \<and> length (history_of s' (o_id row)) = length reqs + 1
      \<and> history_chain None (history_of s' (o_id row))"
proof -
  have "tracked s (o_id row) Pending 1" using c ok by (rule createOrder_tracked)
  from tracked_seq [OF this reqs] show ?thesis
    by (auto simp: tracked_def)
qed

text \<open>
  An order is created and then completed, reopened and cancelled: three transitions,
  four history entries.
\<close>

theorem C1_status_transitions_witness:
  "\<exists>rs s'. updateOrderStatus_seq 1
       [status_request ''completed'', status_request ''pending'', status_request ''cancelled''] db_ordered = (rs, s')
     \<and> answers_match rs [status_request ''completed'', status_request ''pending'', status_request ''cancelled'']
     \<and> map o_status (filter (\<lambda>r. o_id r = 1) (orders s')) = [Cancelled]
     \<and> length (history_of s' 1) = 4
     \<and> history_chain None (history_of s' 1)"
proof -
  have t: "map target_status
       [status_request ''completed'', status_request ''pending'', status_request ''cancelled'']
     = map Some [Completed, Pending, Cancelled]"
    by (simp add: target_status_request order_status_of_string_def)
  have i: "o_id express_order = 1" by (simp add: express_order_def)
  from C1_status_transitions [OF createOrder_express db_alice_ok t]
  show ?thesis unfolding i by (simp del: updateOrderStatus_seq.simps add: eval_nat_numeral)
qed

lemma pricingMap_basePrice: "pricingMap t = basePrice (PRICING_TIERS t)"
  by (cases t) (simp_all add: pricingMap_def PRICING_TIERS_def)

lemma createOrder_ok:
  assumes v: "createOrderSchema body = Inr v"
    and u: "user_by_clerk_id s clerkId = u # us"
    and n: "itemCount v \<le> 2147483647"
  shows "\<exists>row. createOrder clerkId body s =
      (Inr row, s\<lparr>orders := orders s @ [row],
                  order_status_history := order_status_history s @ [creation_entry (o_id row) (u_id u)]\<rparr>)
    \<and> o_id row = fresh_id (map o_id (orders s)) \<and> o_user_id row = u_id u \<and> o_status row = Pending
    \<and> o_price row = pricingMap (serviceType v) \<and> o_item_count row = itemCount v
    \<and> o_service_type row = serviceType v"
  using n by (simp add: createOrder_def v u Let_def creation_entry_def)

text \<open>
  Claim C2 as stated speaks of every valid order-creation input. \<^verbatim>\<open>createOrderSchema\<close>
  bounds \<^verbatim>\<open>itemCount\<close> by \<^verbatim>\<open>Number.MAX_SAFE_INTEGER\<close> only, while the column is a 32-bit
  \<^verbatim>\<open>INTEGER\<close>: the express order with 2147483648 items passes the schema, and for a user
  with a profile the insert fails, no order is returned and nothing is stored.
\<close>

theorem C2_createOrder_counterexample:
  "createOrderSchema oversized_body = Inr oversized_value
   \<and> user_by_clerk_id db_alice ''user_alice'' = [alice]
   \<and> createOrder ''user_alice'' oversized_body db_alice = (Inl (Thrown ''22003''), db_alice)"
proof -
  have "createOrder ''user_alice'' oversized_body db_alice = (Inl (Thrown ''22003''), db_alice)"
    by (simp add: createOrder_def oversized_valid alice_found oversized_value_def Let_def)
  with oversized_valid alice_found show ?thesis by simp
qed

text \<open>
  Claim C2, as amended. For an order-creation input that \<^verbatim>\<open>createOrderSchema\<close> accepts
  and whose item count is at most 2147483647, sent by a user who has a profile,
  \<open>createOrder\<close> returns a new order (its id is not the id of an order already stored)
  with status \<open>Pending\<close>. Its price is the base price of the chosen tier in
  \<open>PRICING_TIERS\<close>, that is 25, 40 or 60, a function of the service type alone and so
  independent of the item count. Exactly one history entry is appended, for this order,
  with no old status and new status \<open>Pending\<close>, and it is the only history entry of the
  order.
\<close>

theorem C2_createOrder:
  assumes v: "createOrderSchema body = Inr v"
    and u: "user_by_clerk_id s clerkId = u # us"
    and n: "itemCount v \<le> 2147483647"
    and ok: "db_ok s"
  shows "\<exists>row s'. createOrder clerkId body s = (Inr row, s')
    \<and> o_id row \<notin> set (map o_id (orders s))
    \<and> o_status row = Pending
    \<and> o_price row = basePrice (PRICING_TIERS (serviceType v))
    \<and> o_price row = (case serviceType v of Standard \<Rightarrow> 25 | Express \<Rightarrow> 40 | Premium \<Rightarrow> 60)
    \<and> orders s' = orders s @ [row]
    \<and> order_status_history s' = order_status_history s @ [creation_entry (o_id row) (u_id u)]
    \<and> history_of s' (o_id row) = [creation_entry (o_id row) (u_id u)]"
proof -
  from createOrder_ok [OF v u n] obtain row where
    r: "createOrder clerkId body s =
      (Inr row, s\<lparr>orders := orders s @ [row],
                  order_status_history := order_status_history s @ [creation_entry (o_id row) (u_id u)]\<rparr>)"
    and i: "o_id row = fresh_id (map o_id (orders s))"
    and st: "o_status row = Pending"
    and p: "o_price row = pricingMap (serviceType v)"
    by blast
  have fresh: "o_id row \<notin> set (map o_id (orders s))"
    unfolding i by (rule fresh_id_notin)
  have h: "history_of s (o_id row) = []"
    using ok fresh by (rule history_of_fresh)
  have h': "history_of (s\<lparr>orders := orders s @ [row],
                  order_status_history := order_status_history s @ [creation_entry (o_id row) (u_id u)]\<rparr>) (o_id row)
      = [creation_entry (o_id row) (u_id u)]"
    using h by (simp add: history_of_def creation_entry_def)
  have p2: "o_price row = (case serviceType v of Standard \<Rightarrow> 25 | Express \<Rightarrow> 40 | Premium \<Rightarrow> 60)"
    by (simp add: p pricingMap_def)
  show ?thesis
    using r fresh st p p2 h' by (simp add: pricingMap_basePrice)
qed

text \<open>The scenario of the specification: an express order of five items costs 40.\<close>

theorem C2_createOrder_witness:
  "\<exists>row s'. createOrder ''user_alice'' express_body db_alice = (Inr row, s')
     \<and> o_status row = Pending \<and> o_price row = 40 \<and> o_item_count row = 5
     \<and> history_of s' (o_id row) = [creation_entry (o_id row) 1]"
proof -
  have n: "itemCount express_value \<le> 2147483647" by (simp add: express_value_def)
  from C2_createOrder [OF express_valid alice_found n db_alice_ok]
  obtain row s' where "createOrder ''user_alice'' express_body db_alice = (Inr row, s')"
    and "o_status row = Pending"
    and "o_price row = (case serviceType express_value of Standard \<Rightarrow> 25 | Express \<Rightarrow> 40 | Premium \<Rightarrow> 60)"
    and "history_of s' (o_id row) = [creation_entry (o_id row) (u_id alice)]"
    by blast
  moreover have "createOrder ''user_alice'' express_body db_alice = (Inr express_order, db_ordered)"
    by (simp add: createOrder_def express_valid user_by_clerk_id_def Let_def express_value_def
        express_order_def db_ordered_def db_alice_def fresh_id_def pricingMap_def alice_def
        creation_entry_def)
  ultimately show ?thesis
    by (auto simp: express_value_def alice_def express_order_def)
qed

lemma filter_owner_nonempty:
  assumes "filter (\<lambda>r. o_id r = i \<and> o_user_id r = uid) rows = x # xs"
  shows "\<exists>y ys. filter (\<lambda>r. o_id r = i) rows = y # ys"
proof -
  have "x \<in> set (filter (\<lambda>r. o_id r = i \<and> o_user_id r = uid) rows)"
    using assms by simp
  then have "x \<in> set (filter (\<lambda>r. o_id r = i) rows)" by simp
  then show ?thesis by (cases "filter (\<lambda>r. o_id r = i) rows") auto
qed

text \<open>
  Claim C3. The requester has a profile and owns the order. If the order's status is
  \<open>Completed\<close> or \<open>Cancelled\<close>, \<open>cancelOrder\<close> answers 400 ``Order cannot be cancelled''
  and the store is unchanged: the status stays and no history entry is appended. In every
  other status the cancel succeeds: it returns the order with status \<open>Cancelled\<close>, the
  stored order has status \<open>Cancelled\<close>, and exactly one history entry is appended, from
  the old status to \<open>Cancelled\<close>.
\<close>

theorem C3_cancelOrder:
  assumes u: "user_by_clerk_id s clerkId = u # us"
    and o: "filter (\<lambda>r. o_id r = i \<and> o_user_id r = u_id u) (orders s) = order # rest"
  shows "(o_status order \<in> {Completed, Cancelled} \<longrightarrow>
            cancelOrder clerkId i s = (Inl (HttpError 400 ''Order cannot be cancelled''), s))
       \<and> (o_status order \<notin> {Completed, Cancelled} \<longrightarrow>
            (\<exists>row. cancelOrder clerkId i s =
               (Inr (Some row), s\<lparr>orders := set_status i Cancelled (orders s),
                           order_status_history := order_status_history s @
                             [cancel_entry i (o_status order) (u_id u)]\<rparr>)
             \<and> o_id row = i \<and> o_status row = Cancelled
             \<and> list_all (\<lambda>r. o_status r = Cancelled)
                  (filter (\<lambda>r. o_id r = i) (set_status i Cancelled (orders s)))))"
proof (intro conjI impI)
  assume "o_status order \<in> {Completed, Cancelled}"
  then show "cancelOrder clerkId i s = (Inl (HttpError 400 ''Order cannot be cancelled''), s)"
    by (auto simp: cancelOrder_def u o)
next
  assume a: "o_status order \<notin> {Completed, Cancelled}"
  from filter_owner_nonempty [OF o] obtain y ys
    where y: "filter (\<lambda>r. o_id r = i) (orders s) = y # ys" by blast
  have yi: "o_id y = i"
  proof -
    have "y \<in> set (filter (\<lambda>r. o_id r = i) (orders s))" by (simp add: y)
    then show ?thesis by simp
  qed
  have all: "list_all (\<lambda>r. o_status r = Cancelled)
                  (filter (\<lambda>r. o_id r = i) (set_status i Cancelled (orders s)))"
    by (simp add: filter_set_status list_all_iff)
  have "cancelOrder clerkId i s =
               (Inr (Some (y\<lparr>o_status := Cancelled\<rparr>)), s\<lparr>orders := set_status i Cancelled (orders s),
                           order_status_history := order_status_history s @
                             [cancel_entry i (o_status order) (u_id u)]\<rparr>)"
    using a by (simp add: cancelOrder_def u o Let_def filter_set_status y cancel_entry_def
        first_row_def)
  then show "\<exists>row. cancelOrder clerkId i s =
               (Inr (Some row), s\<lparr>orders := set_status i Cancelled (orders s),
                           order_status_history := order_status_history s @
                             [cancel_entry i (o_status order) (u_id u)]\<rparr>)
             \<and> o_id row = i \<and> o_status row = Cancelled
             \<and> list_all (\<lambda>r. o_status r = Cancelled)
                  (filter (\<lambda>r. o_id r = i) (set_status i Cancelled (orders s)))"
    using yi all by simp
qed

text \<open>Alice cannot cancel her completed order 2, and can cancel her pending order 1.\<close>

theorem C3_cancelOrder_witness:
  "cancelOrder ''user_alice'' 2 db_two = (Inl (HttpError 400 ''Order cannot be cancelled''), db_two)
   \<and> (\<exists>row. cancelOrder ''user_alice'' 1 db_two =
         (Inr (Some row), db_two\<lparr>orders := set_status 1 Cancelled (orders db_two),
            order_status_history := order_status_history db_two @ [cancel_entry 1 Pending 1]\<rparr>)
       \<and> o_status row = Cancelled)"
proof -
  have o2: "filter (\<lambda>r. o_id r = 2 \<and> o_user_id r = u_id alice) (orders db_two) = completed_order # []"
    by (simp add: db_two_def express_order_def completed_order_def alice_def)
  have o1: "filter (\<lambda>r. o_id r = 1 \<and> o_user_id r = u_id alice) (orders db_two) = express_order # []"
    by (simp add: db_two_def express_order_def completed_order_def alice_def)
  have st: "o_status completed_order = Completed" "o_status express_order = Pending"
    "u_id alice = 1"
    by (simp_all add: completed_order_def express_order_def alice_def)
  from C3_cancelOrder [OF alice_found_two o2] C3_cancelOrder [OF alice_found_two o1]
  show ?thesis unfolding st by auto
qed

text \<open>
  Claim C4. When a payment with status \<open>PaymentCompleted\<close> is stored for an order, a
  valid charge request of the order's owner for that order is answered 400 ``Order
  already paid'', the store is unchanged, and no call is made to Clerk or Stripe (no
  customer is resolved, no payment intent is created), whatever these services would
  have answered.
\<close>

theorem C4_already_paid:
  assumes v: "paymentSchema req = Inr (orderId, paymentMethodId)"
    and u: "user_by_clerk_id s (req_clerkId req) = u # us"
    and o: "filter (\<lambda>r. o_id r = orderId \<and> o_user_id r = u_id u) (orders s) = order # rest"
    and p: "p \<in> set (payments s)" "p_order_id p = orderId" "p_status p = PaymentCompleted"
  shows "processPayment ext req s = (Inl (HttpError 400 ''Order already paid''), s, [])"
proof -
  have "p \<in> set (filter (\<lambda>p. p_order_id p = orderId \<and> p_status p = PaymentCompleted) (payments s))"
    using p by simp
  then have ne: "filter (\<lambda>p. p_order_id p = orderId \<and> p_status p = PaymentCompleted) (payments s) \<noteq> []"
    by (metis empty_iff list.set(1))
  have "charge ext req s = (Inl (HttpError 400 ''Order already paid''), s, [])"
    using ne by (simp add: charge_def v u o)
  then show ?thesis by (simp add: processPayment_def)
qed

text \<open>Order 2 is paid: a second charge is refused and no service is called.\<close>

theorem C4_already_paid_witness:
  "processPayment (services (event_of ''payment_intent.succeeded'' ''pi_2'')) charge_request db_two =
     (Inl (HttpError 400 ''Order already paid''), db_two, [])"
proof -
  have v: "paymentSchema charge_request = Inr (2, ''pm_card'')"
    by (simp add: paymentSchema_def charge_request_def required_string_def)
  have u: "user_by_clerk_id db_two (req_clerkId charge_request) = alice # []"
    by (simp add: charge_request_def alice_found_two)
  have o: "filter (\<lambda>r. o_id r = 2 \<and> o_user_id r = u_id alice) (orders db_two) = completed_order # []"
    by (simp add: db_two_def express_order_def completed_order_def alice_def)
  have p: "paid_payment \<in> set (payments db_two)" "p_order_id paid_payment = 2"
    "p_status paid_payment = PaymentCompleted"
    by (simp_all add: db_two_def paid_payment_def)
  from C4_already_paid [OF v u o p] show ?thesis .
qed

lemma set_payment_completed_idem:
  "set_payment_completed i (set_payment_completed i rows) = set_payment_completed i rows"
  by (induction rows) (simp_all add: set_payment_completed_def)

lemma set_payment_completed_all:
  "list_all (\<lambda>p. p_stripe_payment_intent_id p = Some i \<longrightarrow> p_status p = PaymentCompleted)
     (set_payment_completed i rows)"
  by (induction rows) (simp_all add: set_payment_completed_def)

text \<open>
  Claim C5. Two webhook deliveries whose signatures verify to events with the same
  payment-intent id. If both are \<^verbatim>\<open>payment_intent.succeeded\<close>, the first is acknowledged and
  sets the payments with that intent id to \<open>PaymentCompleted\<close>; the second is acknowledged
  too, without error, and leaves the store exactly as the first left it. A verified event
  whose type is neither \<^verbatim>\<open>payment_intent.succeeded\<close> nor \<^verbatim>\<open>payment_intent.payment_failed\<close>
  is acknowledged and changes nothing.
\<close>

theorem C5_webhook_idempotent:
  assumes e1: "stripe_constructEvent ext (raw_body r1) (stripe_signature r1) endpointSecret = Inr ev1"
    and e2: "stripe_constructEvent ext (raw_body r2) (stripe_signature r2) endpointSecret = Inr ev2"
    and same: "event_object_id ev2 = event_object_id ev1"
  shows "(event_type ev1 = ''payment_intent.succeeded'' \<and> event_type ev2 = ''payment_intent.succeeded'' \<longrightarrow>
            fst (stripeWebhook ext endpointSecret r1 s) = Inr Received
          \<and> stripeWebhook ext endpointSecret r2 (snd (stripeWebhook ext endpointSecret r1 s)) =
              (Inr Received, snd (stripeWebhook ext endpointSecret r1 s))
          \<and> snd (stripeWebhook ext endpointSecret r1 s) =
              s\<lparr>payments := set_payment_completed (event_object_id ev1) (payments s)\<rparr>
          \<and> list_all (\<lambda>p. p_stripe_payment_intent_id p = Some (event_object_id ev1) \<longrightarrow>
                          p_status p = PaymentCompleted)
              (payments (snd (stripeWebhook ext endpointSecret r1 s))))
       \<and> (event_type ev1 \<noteq> ''payment_intent.succeeded'' \<and>
          event_type ev1 \<noteq> ''payment_intent.payment_failed'' \<longrightarrow>
            stripeWebhook ext endpointSecret r1 s = (Inr Received, s))"
  using set_payment_completed_all [of "event_object_id ev1" "payments s"]
  by (simp add: stripeWebhook_def e1 e2 same set_payment_completed_idem)

text \<open>The succeeded event for \<^verbatim>\<open>pi_1\<close> delivered twice, and an event of another type.\<close>

theorem C5_webhook_idempotent_witness:
  "stripeWebhook (services (event_of ''payment_intent.succeeded'' ''pi_1'')) None signed_request
      (snd (stripeWebhook (services (event_of ''payment_intent.succeeded'' ''pi_1'')) None signed_request db_two))
    = (Inr Received,
       snd (stripeWebhook (services (event_of ''payment_intent.succeeded'' ''pi_1'')) None signed_request db_two))
   \<and> map p_status (payments (snd (stripeWebhook
        (services (event_of ''payment_intent.succeeded'' ''pi_1'')) None signed_request db_two)))
      = [PaymentCompleted, PaymentCompleted]
   \<and> stripeWebhook (services (event_of ''charge.refunded'' ''pi_1'')) None signed_request db_two
      = (Inr Received, db_two)"
proof -
  let ?ok = "event_of ''payment_intent.succeeded'' ''pi_1''"
  let ?other = "event_of ''charge.refunded'' ''pi_1''"
  have e: "stripe_constructEvent (services ev) (raw_body signed_request)
      (stripe_signature signed_request) None = Inr ev" for ev
    by (simp add: services_def signed_request_def)
  have ty: "event_type ?ok = ''payment_intent.succeeded''"
    by (simp add: event_of_type)
  have again: "stripeWebhook (services ?ok) None signed_request
       (snd (stripeWebhook (services ?ok) None signed_request db_two)) =
     (Inr Received, snd (stripeWebhook (services ?ok) None signed_request db_two))"
    and first: "snd (stripeWebhook (services ?ok) None signed_request db_two) =
       db_two\<lparr>payments := set_payment_completed (event_object_id ?ok) (payments db_two)\<rparr>"
    using C5_webhook_idempotent [OF e e refl, of ?ok db_two] ty
    by blast+
  have settled: "map p_status (payments (snd (stripeWebhook (services ?ok) None signed_request db_two)))
      = [PaymentCompleted, PaymentCompleted]"
    unfolding first
    by (simp add: event_of_id set_payment_completed_def db_two_def paid_payment_def
        pending_payment_def)
  have ignored: "stripeWebhook (services ?other) None signed_request db_two = (Inr Received, db_two)"
  proof -
    have "event_type ?other \<noteq> ''payment_intent.succeeded'' \<and>
          event_type ?other \<noteq> ''payment_intent.payment_failed''"
      by (simp add: event_of_type)
    with C5_webhook_idempotent [OF e e refl, of ?other db_two] show ?thesis by blast
  qed
  from again settled ignored show ?thesis by blast
qed

text \<open>
  Claim C6. When \<^verbatim>\<open>stripe.webhooks.constructEvent\<close> rejects the body, signature and
  secret, \<open>stripeWebhook\<close> answers 400 with the message of the rejection and the store,
  every payment included, is unchanged.
\<close>

theorem C6_bad_signature:
  assumes "stripe_constructEvent ext (raw_body req) (stripe_signature req) endpointSecret = Inl m"
  shows "stripeWebhook ext endpointSecret req s = (Inl (HttpError 400 (''Webhook Error: '' @ m)), s)"
  using assms by (simp add: stripeWebhook_def)

text \<open>A forged signature.\<close>

theorem C6_bad_signature_witness:
  "stripeWebhook (services (event_of ''payment_intent.succeeded'' ''pi_1'')) None forged_request db_two =
     (Inl (HttpError 400
        ''Webhook Error: No signatures found matching the expected signature for payload''), db_two)"
proof -
  have e: "stripe_constructEvent (services (event_of ''payment_intent.succeeded'' ''pi_1''))
      (raw_body forged_request) (stripe_signature forged_request) None =
      Inl ''No signatures found matching the expected signature for payload''"
    by (simp add: services_def forged_request_def)
  from C6_bad_signature [OF e] show ?thesis by simp
qed

text \<open>
  Claim C7 as stated says that a payment which is not pending is never moved to another
  status by a webhook event. The \<^verbatim>\<open>UPDATE\<close> statements select by payment-intent id only:
  a completed payment is moved to failed by a verified \<^verbatim>\<open>payment_intent.payment_failed\<close>
  event that carries its intent id.
\<close>

theorem C7_webhook_counterexample:
  "p_status (payments db_two ! 0) = PaymentCompleted
   \<and> p_stripe_payment_intent_id (payments db_two ! 0) = Some ''pi_2''
   \<and> p_status (payments (snd (stripeWebhook
        (services (event_of ''payment_intent.payment_failed'' ''pi_2'')) None signed_request db_two)) ! 0)
      = PaymentFailed"
  by (simp add: stripeWebhook_def services_def signed_request_def event_of_def
      set_payment_failed_def db_two_def paid_payment_def)

text \<open>
  Claim C7, as amended. On a verified event the webhook is acknowledged and keeps every
  payment in place. A payment whose payment-intent id is the event's gets status
  \<open>PaymentCompleted\<close> on \<^verbatim>\<open>payment_intent.succeeded\<close>, and status \<open>PaymentFailed\<close> together
  with the error message of the event on \<^verbatim>\<open>payment_intent.payment_failed\<close>, whatever its
  status was before; so a pending payment moves from pending to completed or from pending
  to failed. Every other payment, and every payment on an event of another type, is
  unchanged.
\<close>

theorem C7_webhook_mutation:
  assumes e: "stripe_constructEvent ext (raw_body req) (stripe_signature req) endpointSecret = Inr ev"
    and k: "k < length (payments s)"
  shows "fst (stripeWebhook ext endpointSecret req s) = Inr Received
       \<and> length (payments (snd (stripeWebhook ext endpointSecret req s))) = length (payments s)
       \<and> payments (snd (stripeWebhook ext endpointSecret req s)) ! k =
           (if p_stripe_payment_intent_id (payments s ! k) \<noteq> Some (event_object_id ev)
            then payments s ! k
            else if event_type ev = ''payment_intent.succeeded''
            then (payments s ! k)\<lparr>p_status := PaymentCompleted\<rparr>
            else if event_type ev = ''payment_intent.payment_failed''
            then (payments s ! k)\<lparr>p_status := PaymentFailed,
                   p_error_message := event_last_payment_error_message ev\<rparr>
            else payments s ! k)"
  using k by (simp add: stripeWebhook_def e set_payment_completed_def set_payment_failed_def)

text \<open>
  A failed event for \<^verbatim>\<open>pi_1\<close> moves the pending payment to failed and leaves the other
  payment alone.
\<close>

theorem C7_webhook_mutation_witness:
  "p_status (payments db_two ! 1) = PaymentPending
   \<and> payments (snd (stripeWebhook
        (services (event_of ''payment_intent.payment_failed'' ''pi_1'')) None signed_request db_two)) ! 1
      = pending_payment\<lparr>p_status := PaymentFailed,
          p_error_message := Some ''Your card was declined.''\<rparr>
   \<and> payments (snd (stripeWebhook
        (services (event_of ''payment_intent.payment_failed'' ''pi_1'')) None signed_request db_two)) ! 0
      = paid_payment"
proof -
  have e: "stripe_constructEvent (services ev) (raw_body signed_request)
      (stripe_signature signed_request) None = Inr ev" for ev
    by (simp add: services_def signed_request_def)
  have k: "1 < length (payments db_two)" "0 < length (payments db_two)"
    by (simp_all add: db_two_def)
  from C7_webhook_mutation [OF e k(1), of "event_of ''payment_intent.payment_failed'' ''pi_1''"]
       C7_webhook_mutation [OF e k(2), of "event_of ''payment_intent.payment_failed'' ''pi_1''"]
  show ?thesis
    by (simp add: event_of_def db_two_def paid_payment_def pending_payment_def)
qed

lemma Number_isFinite_iff: "Number_isFinite v \<longleftrightarrow> (\<exists>r. v = Number (Finite r))"
  by (cases v rule: Number_isFinite.cases) simp_all

lemma filter_set_driver_location:
  "filter (\<lambda>r. o_id r = i) (set_driver_location i loc rows) =
     map (\<lambda>r. r\<lparr>o_driver_location := Some loc\<rparr>) (filter (\<lambda>r. o_id r = i) rows)"
  by (induction rows) (simp_all add: set_driver_location_def)

text \<open>
  Claim C8. For an order that exists, \<open>updateDriverLocation\<close> succeeds exactly when
  latitude and longitude are both finite numbers, 0 included. On success the order's
  \<^verbatim>\<open>driver_location\<close> is overwritten with the pair and the capture time, and nothing else
  changes. When either coordinate is NaN, an infinity, null, absent or not a number, the
  answer is 400 ``Valid latitude and longitude coordinates required'' and the store is
  unchanged.
\<close>

theorem C8_updateDriverLocation:
  assumes o: "filter (\<lambda>r. o_id r = i) (orders s) = cur # rest"
  shows "((\<exists>row s'. updateDriverLocation now i \<lparr>body_latitude = lat, body_longitude = lng\<rparr> s = (Inr row, s'))
            \<longleftrightarrow> (\<exists>x y. lat = Number (Finite x) \<and> lng = Number (Finite y)))
       \<and> ((\<exists>x y. lat = Number (Finite x) \<and> lng = Number (Finite y)) \<longrightarrow>
            updateDriverLocation now i \<lparr>body_latitude = lat, body_longitude = lng\<rparr> s =
              (Inr (cur\<lparr>o_driver_location := Some \<lparr>loc_latitude = lat, loc_longitude = lng, loc_timestamp = now\<rparr>\<rparr>),
               s\<lparr>orders := set_driver_location i
                   \<lparr>loc_latitude = lat, loc_longitude = lng, loc_timestamp = now\<rparr> (orders s)\<rparr>))
       \<and> (\<not> (\<exists>x y. lat = Number (Finite x) \<and> lng = Number (Finite y)) \<longrightarrow>
            updateDriverLocation now i \<lparr>body_latitude = lat, body_longitude = lng\<rparr> s =
              (Inl (HttpError 400 ''Valid latitude and longitude coordinates required''), s))"
proof -
  let ?fin = "\<exists>x y. lat = Number (Finite x) \<and> lng = Number (Finite y)"
  let ?loc = "\<lparr>loc_latitude = lat, loc_longitude = lng, loc_timestamp = now\<rparr>"
  have fin: "?fin \<longleftrightarrow> Number_isFinite lat \<and> Number_isFinite lng"
    by (auto simp: Number_isFinite_iff)
  have ok: "updateDriverLocation now i \<lparr>body_latitude = lat, body_longitude = lng\<rparr> s =
              (Inr (cur\<lparr>o_driver_location := Some ?loc\<rparr>),
               s\<lparr>orders := set_driver_location i ?loc (orders s)\<rparr>)" if ?fin
  proof -
    have f: "filter (\<lambda>r. o_id r = i) (set_driver_location i ?loc (orders s)) =
       cur\<lparr>o_driver_location := Some ?loc\<rparr> # map (\<lambda>r. r\<lparr>o_driver_location := Some ?loc\<rparr>) rest"
      by (simp add: filter_set_driver_location o)
    from that fin have "Number_isFinite lat" "Number_isFinite lng" by blast+
    then show ?thesis
      using f by (simp add: updateDriverLocation_def Let_def)
  qed
  have bad: "updateDriverLocation now i \<lparr>body_latitude = lat, body_longitude = lng\<rparr> s =
              (Inl (HttpError 400 ''Valid latitude and longitude coordinates required''), s)" if "\<not> ?fin"
    using that unfolding fin by (auto simp: updateDriverLocation_def)
  show ?thesis
  proof (cases ?fin)
    case True
    with ok show ?thesis by simp
  next
    case False
    with bad show ?thesis by simp
  qed
qed

text \<open>The point (0, 0) is accepted; NaN and null are refused.\<close>

theorem C8_updateDriverLocation_witness:
  "updateDriverLocation ''2024-01-01T00:00:00.000Z'' 1
      \<lparr>body_latitude = Number (Finite 0), body_longitude = Number (Finite 0)\<rparr> db_ordered =
     (Inr (express_order\<lparr>o_driver_location := Some \<lparr>loc_latitude = Number (Finite 0),
        loc_longitude = Number (Finite 0), loc_timestamp = ''2024-01-01T00:00:00.000Z''\<rparr>\<rparr>),
      db_ordered\<lparr>orders := set_driver_location 1 \<lparr>loc_latitude = Number (Finite 0),
        loc_longitude = Number (Finite 0), loc_timestamp = ''2024-01-01T00:00:00.000Z''\<rparr>
        (orders db_ordered)\<rparr>)
   \<and> updateDriverLocation ''2024-01-01T00:00:00.000Z'' 1
      \<lparr>body_latitude = Number NaN, body_longitude = Number (Finite 0)\<rparr> db_ordered =
     (Inl (HttpError 400 ''Valid latitude and longitude coordinates required''), db_ordered)
   \<and> updateDriverLocation ''2024-01-01T00:00:00.000Z'' 1
      \<lparr>body_latitude = Number (Finite 0), body_longitude = Null\<rparr> db_ordered =
     (Inl (HttpError 400 ''Valid latitude and longitude coordinates required''), db_ordered)"
proof -
  have o: "filter (\<lambda>r. o_id r = 1) (orders db_ordered) = express_order # []"
    by (simp add: db_ordered_def express_order_def)
  from C8_updateDriverLocation [OF o, of "''2024-01-01T00:00:00.000Z''" "Number (Finite 0)" "Number (Finite 0)"]
       C8_updateDriverLocation [OF o, of "''2024-01-01T00:00:00.000Z''" "Number NaN" "Number (Finite 0)"]
       C8_updateDriverLocation [OF o, of "''2024-01-01T00:00:00.000Z''" "Number (Finite 0)" "Null"]
  show ?thesis by simp
qed

lemma coalesce_agg: "COALESCE (jsonb_agg ys) (JArr []) = JArr ys"
  by (simp add: COALESCE_def jsonb_agg_def)

lemma remove_at_array: "remove_at n (Some (JArr xs)) = Inr (Some (JArr (without_index n xs)))"
  by (simp add: remove_at_def jsonb_array_elements_def coalesce_agg)

lemma append_address_array: "append_address (Some (JArr xs)) v = Some (JArr (xs @ [v]))"
  by (simp add: append_address_def jsonb_build_array_def)

lemma filter_map_clerk:
  assumes "\<And>u. u_clerk_id (f u) = u_clerk_id u"
  shows "filter (\<lambda>u. u_clerk_id u = c) (map (\<lambda>u. if u_clerk_id u = c then f u else u) rows) =
         map f (filter (\<lambda>u. u_clerk_id u = c) rows)"
  by (induction rows) (simp_all add: assms)

lemma addAddress_list:
  assumes l: "saved_list s clerkId xs" and v: "addressSchema body = Inr v"
  shows "\<exists>u s'. addAddress clerkId body s = (Inr u, s')
           \<and> u_saved_addresses u = Some (JArr (xs @ [v]))
           \<and> saved_list s' clerkId (xs @ [v])"
proof -
  from l obtain u0 where u0: "filter (\<lambda>u. u_clerk_id u = clerkId) (users s) = [u0]"
    and sv: "u_saved_addresses u0 = Some (JArr xs)"
    unfolding saved_list_def user_by_clerk_id_def by auto
  let ?f = "\<lambda>u. u\<lparr>u_saved_addresses := append_address (u_saved_addresses u) v\<rparr>"
  have "filter (\<lambda>u. u_clerk_id u = clerkId)
          (map (\<lambda>u. if u_clerk_id u = clerkId then ?f u else u) (users s)) = [?f u0]"
    by (simp add: filter_map_clerk u0)
  then show ?thesis
    by (simp add: addAddress_def v Let_def user_by_clerk_id_def saved_list_def sv
        append_address_array)
qed

lemma addAddress_invalid:
  assumes "addressSchema body = Inl e"
  shows "addAddress clerkId body s = (Inl e, s)"
  using assms by (simp add: addAddress_def)

lemma removeAddress_list:
  assumes l: "saved_list s clerkId xs" and p: "parseInt index = Some n" and n: "0 \<le> n"
    and m: "n \<le> 9223372036854775807"
  shows "\<exists>u s'. removeAddress clerkId index s = (Inr u, s')
           \<and> u_saved_addresses u = Some (JArr (without_index n xs))
           \<and> saved_list s' clerkId (without_index n xs)"
proof -
  from l obtain u0 where u0: "filter (\<lambda>u. u_clerk_id u = clerkId) (users s) = [u0]"
    and sv: "u_saved_addresses u0 = Some (JArr xs)"
    unfolding saved_list_def user_by_clerk_id_def by auto
  have "\<not> list_ex (\<lambda>u. u_clerk_id u = clerkId \<and> isl (remove_at n (u_saved_addresses u))) (users s)"
  proof
    assume "list_ex (\<lambda>u. u_clerk_id u = clerkId \<and> isl (remove_at n (u_saved_addresses u))) (users s)"
    then obtain u where "u \<in> set (users s)" "u_clerk_id u = clerkId"
      and i: "isl (remove_at n (u_saved_addresses u))"
      by (auto simp: list_ex_iff)
    then have "u \<in> set (filter (\<lambda>u. u_clerk_id u = clerkId) (users s))" by simp
    then have "u = u0" by (simp add: u0)
    with i sv show False by (simp add: remove_at_array)
  qed
  note ok = this
  let ?f = "\<lambda>u. u\<lparr>u_saved_addresses :=
               (case remove_at n (u_saved_addresses u) of Inl m \<Rightarrow> u_saved_addresses u | Inr v \<Rightarrow> v)\<rparr>"
  have "filter (\<lambda>u. u_clerk_id u = clerkId)
          (map (\<lambda>u. if u_clerk_id u = clerkId then ?f u else u) (users s)) = [?f u0]"
    by (simp add: filter_map_clerk u0)
  then show ?thesis
    using ok n m
    by (simp add: removeAddress_def p Let_def user_by_clerk_id_def saved_list_def sv
        remove_at_array)
qed

lemma removeAddress_invalid:
  assumes "parseInt index = None \<or>
           (\<exists>n. parseInt index = Some n \<and> (n < 0 \<or> n > 9223372036854775807))"
  shows "snd (removeAddress clerkId index s) = s"
  using assms by (auto simp: removeAddress_def)

lemma apply_address_op_list:
  assumes "saved_list s clerkId xs"
  shows "\<exists>ys. saved_list (snd (apply_address_op clerkId op s)) clerkId ys"
proof (cases op)
  case (AddAddress body)
  show ?thesis
  proof (cases "addressSchema body")
    case (Inl e)
    then show ?thesis using assms AddAddress by (auto simp: addAddress_invalid)
  next
    case (Inr v)
    from addAddress_list [OF assms Inr] show ?thesis using AddAddress by auto
  qed
next
  case (RemoveAddress index)
  show ?thesis
  proof (cases "parseInt index")
    case None
    then show ?thesis using assms RemoveAddress by (auto simp: removeAddress_invalid)
  next
    case (Some n)
    show ?thesis
    proof (cases "n < 0 \<or> n > 9223372036854775807")
      case True
      with Some show ?thesis using assms RemoveAddress by (auto simp: removeAddress_invalid)
    next
      case False
      then have "0 \<le> n" "n \<le> 9223372036854775807" by simp_all
      from removeAddress_list [OF assms Some this] show ?thesis using RemoveAddress by auto
    qed
  qed
qed

lemma apply_address_ops_list:
  assumes "saved_list s clerkId xs"
  shows "\<exists>ys. saved_list (apply_address_ops clerkId ops s) clerkId ys"
  using assms
proof (induction ops arbitrary: s xs)
  case Nil
  then show ?case by (auto simp: apply_address_ops_def)
next
  case (Cons op ops)
  from apply_address_op_list [OF Cons.prems] obtain ys
    where "saved_list (snd (apply_address_op clerkId op s)) clerkId ys" by blast
  from Cons.IH [OF this] show ?case by (simp add: apply_address_ops_def)
qed

lemma upsertProfile_new:
  assumes new: "user_by_clerk_id s0 clerkId = []"
    and p: "upsertProfile clerkId body s0 = (Inr u, s)"
  shows "saved_list s clerkId []"
proof -
  from p obtain nm ph ad where v: "profileSchema body = Inr (nm, ph, ad)"
    by (cases "profileSchema body") (auto simp: upsertProfile_def)
  from p obtain row where "users s = users s0 @ [row]" "u_clerk_id row = clerkId"
    "u_saved_addresses row = Some (JArr [])"
    by (auto simp: upsertProfile_def v new Let_def)
  then show ?thesis
    using new by (simp add: saved_list_def user_by_clerk_id_def)
qed

lemma parseInt_0: "parseInt ''0'' = Some 0"
  by (simp add: parseInt_def is_space_def digit_value_def digits_value_def to_double_def
      bit_length.simps Let_def)

text \<open>
  Claim C9. A profile is created by \<open>upsertProfile\<close>; then any sequence of add-address
  and remove-address requests is served for it, valid or not. Afterwards the
  \<^verbatim>\<open>saved_addresses\<close> of the profile is an array, never NULL or another value. If the
  array has one element, removing index 0 succeeds and leaves the empty array. If the
  array is empty, adding a valid address succeeds and leaves the one-element array of
  that address, not the bare object.
\<close>

theorem C9_saved_addresses_list:
  assumes new: "user_by_clerk_id s0 clerkId = []"
    and p: "upsertProfile clerkId profile s0 = (Inr u0, s)"
  shows "\<exists>xs. saved_list (apply_address_ops clerkId ops s) clerkId xs
       \<and> (\<forall>x. xs = [x] \<longrightarrow>
            (\<exists>u t. removeAddress clerkId ''0'' (apply_address_ops clerkId ops s) = (Inr u, t)
               \<and> u_saved_addresses u = Some (JArr []) \<and> saved_list t clerkId []))
       \<and> (\<forall>body v. xs = [] \<and> addressSchema body = Inr v \<longrightarrow>
            (\<exists>u t. addAddress clerkId body (apply_address_ops clerkId ops s) = (Inr u, t)
               \<and> u_saved_addresses u = Some (JArr [v]) \<and> saved_list t clerkId [v]))"
proof -
  let ?t = "apply_address_ops clerkId ops s"
  have "saved_list s clerkId []" using new p by (rule upsertProfile_new)
  from apply_address_ops_list [OF this] obtain xs where xs: "saved_list ?t clerkId xs" by blast
  have rm: "\<exists>u t. removeAddress clerkId ''0'' ?t = (Inr u, t)
               \<and> u_saved_addresses u = Some (JArr []) \<and> saved_list t clerkId []" if "xs = [x]" for x
  proof -
    have w: "without_index 0 [x] = []" by (simp add: without_index_def)
    from removeAddress_list [OF xs parseInt_0] show ?thesis by (simp add: that w)
  qed
  have add: "\<exists>u t. addAddress clerkId body ?t = (Inr u, t)
               \<and> u_saved_addresses u = Some (JArr [v]) \<and> saved_list t clerkId [v]"
    if "xs = []" "addressSchema body = Inr v" for body v
    using addAddress_list [OF xs that(2)] that(1) by simp
  from xs rm add show ?thesis by blast
qed

text \<open>The scenario of the specification: add ``Home, remove index 0, add ``Work.\<close>

theorem C9_saved_addresses_list_witness:
  "(\<exists>xs. saved_list (apply_address_ops ''user_alice''
            [AddAddress home_saved, RemoveAddress ''0'', AddAddress work_saved] db_alice)
          ''user_alice'' xs)
   \<and> (\<exists>u t. removeAddress ''user_alice'' ''0''
          (apply_address_ops ''user_alice'' [AddAddress home_saved] db_alice) = (Inr u, t)
        \<and> u_saved_addresses u = Some (JArr []))
   \<and> (\<exists>u t. addAddress ''user_alice'' work_saved
          (apply_address_ops ''user_alice'' [AddAddress home_saved, RemoveAddress ''0''] db_alice)
            = (Inr u, t)
        \<and> u_saved_addresses u = Some (JArr [work_json]))"
proof -
  let ?c = "''user_alice''"
  have new: "user_by_clerk_id db_empty ?c = []"
    by (simp add: user_by_clerk_id_def db_empty_def)
  have p: "upsertProfile ?c alice_profile db_empty = (Inr (Some alice), db_alice)"
    by (simp add: upsertProfile_def profileSchema_def optional_string_def alice_profile_def
        user_by_clerk_id_def db_empty_def db_alice_def alice_def fresh_id_def Let_def)
  note main = C9_saved_addresses_list [OF new p]
  have s0: "saved_list db_alice ?c []"
    by (simp add: saved_list_def user_by_clerk_id_def db_alice_def alice_def)
  have vh: "addressSchema home_saved = Inr home_json"
    by (simp add: addressSchema_def home_saved_def home_json_def required_string_def
        joi_number_def optional_number_def)
  have vw: "addressSchema work_saved = Inr work_json"
    by (simp add: addressSchema_def work_saved_def work_json_def required_string_def
        joi_number_def optional_number_def)
  have s1: "saved_list (apply_address_ops ?c [AddAddress home_saved] db_alice) ?c [home_json]"
    using addAddress_list [OF s0 vh] by (auto simp: apply_address_ops_def)
  have s2: "saved_list (apply_address_ops ?c [AddAddress home_saved, RemoveAddress ''0''] db_alice) ?c []"
  proof -
    have "0 \<le> (0::int)" by simp
    from removeAddress_list [OF s1 parseInt_0 this]
    show ?thesis by (auto simp: apply_address_ops_def without_index_def)
  qed
  have a: "\<exists>xs. saved_list (apply_address_ops ?c
            [AddAddress home_saved, RemoveAddress ''0'', AddAddress work_saved] db_alice) ?c xs"
    using main [of "[AddAddress home_saved, RemoveAddress ''0'', AddAddress work_saved]"] by blast
  have b: "\<exists>u t. removeAddress ?c ''0''
          (apply_address_ops ?c [AddAddress home_saved] db_alice) = (Inr u, t)
        \<and> u_saved_addresses u = Some (JArr [])"
  proof -
    from main [of "[AddAddress home_saved]"] obtain xs where
      x: "saved_list (apply_address_ops ?c [AddAddress home_saved] db_alice) ?c xs"
      and r: "\<forall>x. xs = [x] \<longrightarrow>
            (\<exists>u t. removeAddress ?c ''0'' (apply_address_ops ?c [AddAddress home_saved] db_alice) = (Inr u, t)
               \<and> u_saved_addresses u = Some (JArr []) \<and> saved_list t ?c [])"
      by blast
    from x s1 have "xs = [home_json]" by (rule saved_list_unique)
    with r show ?thesis by blast
  qed
  have c: "\<exists>u t. addAddress ?c work_saved
          (apply_address_ops ?c [AddAddress home_saved, RemoveAddress ''0''] db_alice) = (Inr u, t)
        \<and> u_saved_addresses u = Some (JArr [work_json])"
  proof -
    from main [of "[AddAddress home_saved, RemoveAddress ''0'']"] obtain xs where
      x: "saved_list (apply_address_ops ?c [AddAddress home_saved, RemoveAddress ''0''] db_alice) ?c xs"
      and r: "\<forall>body v. xs = [] \<and> addressSchema body = Inr v \<longrightarrow>
            (\<exists>u t. addAddress ?c body (apply_address_ops ?c [AddAddress home_saved, RemoveAddress ''0''] db_alice) = (Inr u, t)
               \<and> u_saved_addresses u = Some (JArr [v]) \<and> saved_list t ?c [v])"
      by blast
    from x s2 have "xs = []" by (rule saved_list_unique)
    with r vw show ?thesis by blast
  qed
  from a b c show ?thesis by blast
qed

text \<open>
  The trace: tracking of one order is started, the task goes to sleep, tracking is
  started again (the first task is cancelled, a second one is registered), and the first
  task wakes up, leaves its loop and runs its closing \<^verbatim>\<open>removeValue(forKey: orderId)\<close>,
  which removes the entry of the second task.
\<close>

lemma restart_state:
  "run restart_trace initial_manager =
     \<lparr>pollingTasks = [],
      tasks = [\<lparr>task_orderId = order_1, isCancelled = True, pc = Finished\<rparr>,
               \<lparr>task_orderId = order_1, isCancelled = False, pc = LoopTest\<rparr>]\<rparr>"
  by (simp add: run_def restart_trace_def initial_manager_def startRealTimeUpdates_def
      stopRealTimeUpdates_def removeValue_def cancel_def resume_def wake_def set_pc_def Let_def)

text \<open>
  Claim C10 says that at most one timer is active per order id at any time and that
  starting twice leaves exactly one, which one stop then ends. After the trace above the
  second task is active but no longer registered; a stop for the order does not reach
  it, and one more start leaves two active timers for the same order id.
\<close>

theorem C10_two_active_timers:
  "map_of (pollingTasks (run restart_trace initial_manager)) order_1 = None
   \<and> length (active_timers order_1 (run restart_trace initial_manager)) = 1
   \<and> length (active_timers order_1 (run (restart_trace @ [Stop order_1]) initial_manager)) = 1
   \<and> length (active_timers order_1 (run (restart_trace @ [Start order_1]) initial_manager)) = 2"
proof -
  have r: "run (xs @ [e]) m = step e (run xs m)" for xs e m
    by (simp add: run_def)
  show ?thesis
    unfolding r restart_state
    by (simp add: active_timers_def active_def startRealTimeUpdates_def
      stopRealTimeUpdates_def removeValue_def cancel_def Let_def)
qed

end
